theory Spec2Isabelle
  imports Complex_Main
begin

section \<open>Python values\<close>

text \<open>
  The scraper handles the values that \<^verbatim>\<open>response.json()\<close> produces: \<^verbatim>\<open>None\<close>, booleans,
  numbers, strings, lists and dictionaries. \<open>JNull\<close> is Python's \<^verbatim>\<open>None\<close>, so an
  \<^verbatim>\<open>Optional[Dict]\<close> is a \<open>json\<close> too. A dictionary is an association list read with
  \<open>map_of\<close>, in insertion order.

  The strings of these values and of the requests are only compared, joined and cleared
  of ASCII separators, in the same way whatever their other characters are: such a
  \<^verbatim>\<open>str\<close> is a \<open>string\<close>, the character \<open>c\<close> being the code point \<open>of_char c\<close>. The
  strings that go into a file name are classified character by character and are lists
  of code points (see \<open>str\<close> below). A finite float is kept by its value; no arithmetic is
  done on it.
\<close>

datatype json =
    JNull
  | JBool bool
  | JInt int
  | JFloat rat
  | JStr string
  | JArr "json list"
  | JObj "(string \<times> json) list"

type_synonym dict = "(string \<times> json) list"

text \<open>The exceptions the three modules can raise.\<close>

datatype error =
    AttributeError
  | KeyError
  | TypeError
  | ValueError
  | RequestException
  | OSError
  | ApiError json json

text \<open>Truth value testing, as in \<^verbatim>\<open>if x:\<close> and \<^verbatim>\<open>if not x:\<close>.\<close>

fun truthy :: "json \<Rightarrow> bool" where
  "truthy JNull = False"
| "truthy (JBool b) = b"
| "truthy (JInt i) = (i \<noteq> 0)"
| "truthy (JFloat r) = (r \<noteq> 0)"
| "truthy (JStr s) = (s \<noteq> [])"
| "truthy (JArr xs) = (xs \<noteq> [])"
| "truthy (JObj d) = (d \<noteq> [])"

text \<open>\<^verbatim>\<open>d.get(k, default)\<close> on a dictionary.\<close>

definition get :: "dict \<Rightarrow> string \<Rightarrow> json \<Rightarrow> json" where
  "get d k dflt = (case map_of d k of None \<Rightarrow> dflt | Some v \<Rightarrow> v)"

text \<open>
  Looking up the attribute \<^verbatim>\<open>get\<close> (or \<^verbatim>\<open>keys\<close>) on a value: only a dictionary has it,
  anything else raises AttributeError.
\<close>

fun as_dict :: "json \<Rightarrow> error + dict" where
  "as_dict (JObj d) = Inr d"
| "as_dict _ = Inl AttributeError"

text \<open>
  \<^verbatim>\<open>x[k]\<close> with a string key: KeyError on a dictionary without the key, TypeError on
  every other value.
\<close>

fun subscript :: "json \<Rightarrow> string \<Rightarrow> error + json" where
  "subscript (JObj d) k = (case map_of d k of None \<Rightarrow> Inl KeyError | Some v \<Rightarrow> Inr v)"
| "subscript _ k = Inl TypeError"

text \<open>\<^verbatim>\<open>d[k] = v\<close>: an existing key keeps its place, a new one goes last.\<close>

fun setitem :: "('k \<times> 'v) list \<Rightarrow> 'k \<Rightarrow> 'v \<Rightarrow> ('k \<times> 'v) list" where
  "setitem [] k v = [(k, v)]"
| "setitem ((k', v') # d) k v = (if k' = k then (k, v) # d else (k', v') # setitem d k v)"

text \<open>\<^verbatim>\<open>d.update(other)\<close>: the items of \<^verbatim>\<open>other\<close> are set one after the other.\<close>

definition update :: "dict \<Rightarrow> dict \<Rightarrow> dict" where
  "update d other = foldl (\<lambda>d (k, v). setitem d k v) d other"

text \<open>
  \<^verbatim>\<open>d[k]\<close> where \<^verbatim>\<open>d\<close> is a dictionary the function has just built with the key \<^verbatim>\<open>k\<close> in it,
  so that the lookup cannot fail.
\<close>

definition item :: "dict \<Rightarrow> string \<Rightarrow> json" where
  "item d k = the (map_of d k)"

text \<open>Sequencing of steps that may raise: the first exception ends the computation.\<close>

definition then_do :: "error + 'a \<Rightarrow> ('a \<Rightarrow> error + 'b) \<Rightarrow> error + 'b" where
  "then_do m f = (case m of Inl e \<Rightarrow> Inl e | Inr x \<Rightarrow> f x)"

section \<open>utils.py\<close>

text \<open>
  \<^verbatim>\<open>s.replace(old, new)\<close> where \<^verbatim>\<open>old\<close> is a single character, on a string of either
  representation.
\<close>

definition replace :: "'a \<Rightarrow> 'a list \<Rightarrow> 'a list \<Rightarrow> 'a list" where
  "replace old new s = concat (map (\<lambda>c. if c = old then new else [c]) s)"

definition startswith :: "string \<Rightarrow> string \<Rightarrow> bool" where
  "startswith s p = (take (length p) s = p)"

text \<open>
  \<^verbatim>\<open>sanitize_filename\<close> looks at the class of each character and lower-cases the text,
  so the strings it works on are lists of Unicode code points, of any size. What
  \<^verbatim>\<open>str.isalnum\<close> says of one character and what \<^verbatim>\<open>str.lower\<close> makes of a string come
  from the Unicode character database of the interpreter, which is no part of the
  repository: they are parameters. \<^verbatim>\<open>str.lower\<close> is a function of the whole string: it
  can give two code points for one (U+0130 becomes \<open>i\<close> and U+0307) and it looks at the
  position in the word (U+03A3).
\<close>

type_synonym str = "nat list"

record unicode =
  isalnum :: "nat \<Rightarrow> bool"
  lower :: "str \<Rightarrow> str"

text \<open>The code point of an ASCII character, and the \<open>str\<close> of a literal of the source.\<close>

definition ord :: "char \<Rightarrow> nat" where
  "ord c = of_char c"

definition literal :: "string \<Rightarrow> str" where
  "literal s = map ord s"

text \<open>
  \<^verbatim>\<open>
  sanitized = text.replace(' ', '_').replace(',', '_').replace('/', '_')
  sanitized = ''.join(c for c in sanitized if c.isalnum() or c in ('_', '-'))
  return sanitized.lower()
  \<close>
\<close>

definition sanitize_filename :: "unicode \<Rightarrow> str \<Rightarrow> str" where
  "sanitize_filename ucd text =
     (let sanitized = replace (ord CHR ''/'') (literal ''_'')
                        (replace (ord CHR '','') (literal ''_'')
                          (replace (ord CHR '' '') (literal ''_'') text));
          sanitized = filter (\<lambda>c. isalnum ucd c \<or> c \<in> {ord CHR ''_'', ord CHR ''-''}) sanitized
      in lower ucd sanitized)"

text \<open>
  The database below U+0100. \<^verbatim>\<open>str.isalnum\<close> accepts the ASCII digits and letters, the
  letters of the Latin-1 supplement (U+00AA, U+00B5, U+00BA, U+00C0 to U+00FF without the
  two operators U+00D7 and U+00F7) and its digits and fractions (U+00B2, U+00B3, U+00B9,
  U+00BC to U+00BE). The upper-case letters are \<open>A\<close> to \<open>Z\<close> and U+00C0 to U+00DE without
  U+00D7; \<^verbatim>\<open>str.lower\<close> moves each of them 32 code points up and leaves every other
  character of a string of such code points as it is. \<open>latin1\<close> is this part of the
  database alone (it says nothing true of larger code points), for the examples;
  \<open>agrees_latin1\<close> says that a database is this one below U+0100, as the interpreter's is.
\<close>

definition isalnum_latin1 :: "nat \<Rightarrow> bool" where
  "isalnum_latin1 n =
     ((48 \<le> n \<and> n \<le> 57) \<or> (65 \<le> n \<and> n \<le> 90) \<or> (97 \<le> n \<and> n \<le> 122)
      \<or> n = 170 \<or> n = 178 \<or> n = 179 \<or> n = 181 \<or> n = 185 \<or> n = 186
      \<or> (188 \<le> n \<and> n \<le> 190)
      \<or> (192 \<le> n \<and> n \<le> 214) \<or> (216 \<le> n \<and> n \<le> 246) \<or> (248 \<le> n \<and> n \<le> 255))"

definition isupper_latin1 :: "nat \<Rightarrow> bool" where
  "isupper_latin1 n =
     ((65 \<le> n \<and> n \<le> 90) \<or> (192 \<le> n \<and> n \<le> 214) \<or> (216 \<le> n \<and> n \<le> 222))"

definition lower_latin1 :: "nat \<Rightarrow> nat" where
  "lower_latin1 n = (if isupper_latin1 n then n + 32 else n)"

definition latin1 :: unicode where
  "latin1 = \<lparr>isalnum = isalnum_latin1, lower = map lower_latin1\<rparr>"

definition agrees_latin1 :: "unicode \<Rightarrow> bool" where
  "agrees_latin1 ucd =
     ((\<forall>c<256. isalnum ucd c = isalnum_latin1 c)
      \<and> (\<forall>s. (\<forall>c \<in> set s. c < 256) \<longrightarrow> lower ucd s = map lower_latin1 s))"

text \<open>
  \<^verbatim>\<open>
  if not phone: return ""
  cleaned = phone.replace(' ', '').replace('-', '').replace('(', '').replace(')', '')
  if phone.startswith('+'): return phone
  return cleaned
  \<close>
  The argument is whatever the detail record holds under \<^verbatim>\<open>formatted_phone_number\<close>; a
  value that is true and not a string has no \<^verbatim>\<open>replace\<close>.
\<close>

definition format_phone_number :: "json \<Rightarrow> error + string" where
  "format_phone_number phone =
     (if \<not> truthy phone then Inr ''''
      else case phone of
        JStr s \<Rightarrow>
          (let cleaned = replace CHR '')'' '''' (replace CHR ''('' ''''
                           (replace CHR ''-'' '''' (replace CHR '' '' '''' s)))
           in if startswith s ''+'' then Inr s else Inr cleaned)
      | _ \<Rightarrow> Inl AttributeError)"

section \<open>data_processor.py\<close>

text \<open>
  \<^verbatim>\<open>extract_place_data(place_basic, place_details)\<close>. Every \<^verbatim>\<open>.get\<close> is a lookup of the
  attribute on the value at hand, which raises when that value is not a dictionary:
  \<^verbatim>\<open>place_basic\<close> itself, its \<^verbatim>\<open>geometry\<close> and the \<^verbatim>\<open>location\<close> in it, a true
  \<^verbatim>\<open>place_details\<close>, its \<^verbatim>\<open>geometry\<close>, and a true \<^verbatim>\<open>location\<close> in it.
\<close>

definition extract_place_data :: "json \<Rightarrow> json \<Rightarrow> error + dict" where
  "extract_place_data place_basic place_details =
     then_do (as_dict place_basic) (\<lambda>pb.
     let extracted =
       [(''name'', get pb ''name'' (JStr '''')),
        (''place_id'', get pb ''place_id'' (JStr '''')),
        (''address'', get pb ''formatted_address'' (JStr '''')),
        (''latitude'', JStr ''''),
        (''longitude'', JStr ''''),
        (''rating'', get pb ''rating'' (JStr '''')),
        (''user_ratings_total'', get pb ''user_ratings_total'' (JStr '''')),
        (''phone_number'', JStr ''''),
        (''website'', JStr '''')]
     in
     then_do (as_dict (get pb ''geometry'' (JObj []))) (\<lambda>geometry.
     then_do (as_dict (get geometry ''location'' (JObj []))) (\<lambda>location.
     let extracted = setitem extracted ''latitude'' (get location ''lat'' (JStr ''''));
         extracted = setitem extracted ''longitude'' (get location ''lng'' (JStr ''''))
     in
     if truthy place_details then
       then_do (as_dict place_details) (\<lambda>pd.
       then_do (format_phone_number (get pd ''formatted_phone_number'' (JStr ''''))) (\<lambda>phone.
       let extracted = update extracted
         [(''name'', get pd ''name'' (item extracted ''name'')),
          (''address'', get pd ''formatted_address'' (item extracted ''address'')),
          (''rating'', get pd ''rating'' (item extracted ''rating'')),
          (''user_ratings_total'',
             get pd ''user_ratings_total'' (item extracted ''user_ratings_total'')),
          (''phone_number'', JStr phone),
          (''website'', get pd ''website'' (JStr ''''))]
       in
       then_do (as_dict (get pd ''geometry'' (JObj []))) (\<lambda>details_geometry.
       let details_location = get details_geometry ''location'' (JObj []) in
       if truthy details_location then
         then_do (as_dict details_location) (\<lambda>dl.
         let extracted = setitem extracted ''latitude'' (get dl ''lat'' (item extracted ''latitude''));
             extracted = setitem extracted ''longitude'' (get dl ''lng'' (item extracted ''longitude''))
         in Inr extracted)
       else Inr extracted)))
     else Inr extracted)))"

text \<open>
  The exporter works on the operating system: the clock that \<^verbatim>\<open>time.time()\<close> reads and
  the files it opens for writing. \<open>now s n\<close> is what the \<open>n\<close>-th reading of
  \<^verbatim>\<open>int(time.time())\<close> gives, \<open>write_fails s n f\<close> says that opening or writing the file
  \<open>f\<close>, as the \<open>n\<close>-th file opened, raises, and \<open>opened\<close> lists the files opened so far.
\<close>

record os =
  now :: "nat \<Rightarrow> int"
  reads :: nat
  write_fails :: "nat \<Rightarrow> str \<Rightarrow> bool"
  opened :: "str list"

text \<open>\<^verbatim>\<open>str(n)\<close> of an integer, in decimal.\<close>

fun str_nat :: "nat \<Rightarrow> str" where
  "str_nat n = (if n < 10 then [ord CHR ''0'' + n]
                else str_nat (n div 10) @ [ord CHR ''0'' + n mod 10])"

declare str_nat.simps [simp del]

definition str_int :: "int \<Rightarrow> str" where
  "str_int i = (if i < 0 then ord CHR ''-'' # str_nat (nat (- i)) else str_nat (nat i))"

text \<open>
  \<^verbatim>\<open>
  timestamp = int(time.time())
  safe_place_type = sanitize_filename(place_type)
  safe_location = sanitize_filename(location)
  return f"{safe_place_type}_{safe_location}_{timestamp}.{file_extension}"
  \<close>
\<close>

definition generate_filename :: "unicode \<Rightarrow> str \<Rightarrow> str \<Rightarrow> str \<Rightarrow> os \<Rightarrow> str \<times> os" where
  "generate_filename ucd place_type location file_extension s =
     (let timestamp = now s (reads s);
          s = s\<lparr>reads := Suc (reads s)\<rparr>;
          safe_place_type = sanitize_filename ucd place_type;
          safe_location = sanitize_filename ucd location
      in (safe_place_type @ literal ''_'' @ safe_location @ literal ''_'' @ str_int timestamp
            @ literal ''.'' @ file_extension, s))"

text \<open>
  \<^verbatim>\<open>open(filename, 'w')\<close> and the writes that follow, as one step that raises or not.
\<close>

definition open_and_write :: "str \<Rightarrow> os \<Rightarrow> (error + unit) \<times> os" where
  "open_and_write filename s =
     (if write_fails s (length (opened s)) filename then Inl OSError else Inr (),
      s\<lparr>opened := opened s @ [filename]\<rparr>)"

text \<open>
  \<^verbatim>\<open>save_to_json\<close>: the data are values of \<open>json\<close>, which \<^verbatim>\<open>json.dump\<close> serialises, so
  only the file can fail; any exception gives \<^verbatim>\<open>False\<close>.
\<close>

definition save_to_json :: "json list \<Rightarrow> str \<Rightarrow> os \<Rightarrow> bool \<times> os" where
  "save_to_json data filename s =
     (case open_and_write filename s of
        (Inl e, s') \<Rightarrow> (False, s')
      | (Inr u, s') \<Rightarrow> (True, s'))"

text \<open>
  \<^verbatim>\<open>csv.DictWriter(f, fieldnames=data[0].keys())\<close> followed by \<^verbatim>\<open>writerows(data)\<close>: the
  first element gives the field names; a row with a key that is not a field name raises
  ValueError (the writer's \<^verbatim>\<open>extrasaction\<close> is \<^verbatim>\<open>'raise'\<close>), a key it lacks is written
  as the empty string. The result is the table written: the header and the rows.
\<close>

definition dict_to_list :: "string list \<Rightarrow> json \<Rightarrow> error + json list" where
  "dict_to_list fieldnames row =
     then_do (as_dict row) (\<lambda>rowdict.
       if list_ex (\<lambda>k. k \<notin> set fieldnames) (map fst rowdict) then Inl ValueError
       else Inr (map (\<lambda>k. get rowdict k (JStr '''')) fieldnames))"

fun writerows :: "string list \<Rightarrow> json list \<Rightarrow> error + json list list" where
  "writerows fieldnames [] = Inr []"
| "writerows fieldnames (row # rows) =
     then_do (dict_to_list fieldnames row) (\<lambda>r.
     then_do (writerows fieldnames rows) (\<lambda>rs. Inr (r # rs)))"

definition dictwriter :: "json list \<Rightarrow> error + string list \<times> json list list" where
  "dictwriter data =
     then_do (as_dict (hd data)) (\<lambda>first.
     let fieldnames = map fst first in
     then_do (writerows fieldnames data) (\<lambda>rows. Inr (fieldnames, rows)))"

text \<open>
  \<^verbatim>\<open>save_to_csv\<close>: no data gives \<^verbatim>\<open>False\<close> before any file is opened (so \<open>hd data\<close> is
  read on a list with an element); after that, any exception gives \<^verbatim>\<open>False\<close>.
\<close>

definition save_to_csv :: "json list \<Rightarrow> str \<Rightarrow> os \<Rightarrow> bool \<times> os" where
  "save_to_csv data filename s =
     (if data = [] then (False, s)
      else case open_and_write filename s of
        (Inl e, s') \<Rightarrow> (False, s')
      | (Inr u, s') \<Rightarrow>
          (case dictwriter data of Inl e \<Rightarrow> (False, s') | Inr table \<Rightarrow> (True, s')))"

text \<open>
  \<^verbatim>\<open>export_data\<close>: the loop over the formats, with the result dictionary and the
  operating system threaded through; \<^verbatim>\<open>formats=None\<close> stands for both formats. The
  database is the one \<^verbatim>\<open>sanitize_filename\<close> needs for the file names.
\<close>

fun export_loop ::
  "unicode \<Rightarrow> json list \<Rightarrow> str \<Rightarrow> str \<Rightarrow> string list \<Rightarrow> (string \<times> bool) list \<Rightarrow> os
     \<Rightarrow> (string \<times> bool) list \<times> os" where
  "export_loop ucd data place_type location [] results s = (results, s)"
| "export_loop ucd data place_type location (fmt # formats) results s =
     (if fmt = ''json'' then
        (case generate_filename ucd place_type location (literal ''json'') s of (filename, s1) \<Rightarrow>
         case save_to_json data filename s1 of (ok, s2) \<Rightarrow>
           export_loop ucd data place_type location formats (setitem results ''json'' ok) s2)
      else if fmt = ''csv'' then
        (case generate_filename ucd place_type location (literal ''csv'') s of (filename, s1) \<Rightarrow>
         case save_to_csv data filename s1 of (ok, s2) \<Rightarrow>
           export_loop ucd data place_type location formats (setitem results ''csv'' ok) s2)
      else export_loop ucd data place_type location formats (setitem results fmt False) s)"

definition export_data ::
  "unicode \<Rightarrow> json list \<Rightarrow> str \<Rightarrow> str \<Rightarrow> string list option \<Rightarrow> os
     \<Rightarrow> (string \<times> bool) list \<times> os" where
  "export_data ucd data place_type location formats s =
     (let formats = (case formats of None \<Rightarrow> [''json'', ''csv''] | Some fs \<Rightarrow> fs)
      in export_loop ucd data place_type location formats [] s)"

section \<open>config.py\<close>

definition GOOGLE_PLACES_BASE_URL :: string where
  "GOOGLE_PLACES_BASE_URL = ''https://maps.googleapis.com/maps/api/place''"

definition DEFAULT_RADIUS :: int where
  "DEFAULT_RADIUS = 50000"

definition REQUEST_DELAY :: rat where
  "REQUEST_DELAY = 1 / 10"

definition PAGINATION_DELAY :: rat where
  "PAGINATION_DELAY = 2"

definition PLACE_DETAIL_FIELDS :: string where
  "PLACE_DETAIL_FIELDS =
     ''name,formatted_address,geometry,rating,user_ratings_total,''
     @ ''formatted_phone_number,website,place_id''"

section \<open>scraper.py\<close>

text \<open>
  The scraper talks to the provider through \<^verbatim>\<open>self.session.get\<close> and waits with
  \<^verbatim>\<open>time.sleep\<close>. The world holds what the network will answer to the \<open>n\<close>-th request
  made (counted from 0) and the log of the requests made and the waits taken, in order.
  A request ends in one of four ways: \<^verbatim>\<open>session.get\<close> raises, \<^verbatim>\<open>raise_for_status\<close>
  raises, \<^verbatim>\<open>response.json()\<close> raises, or the body is parsed.
\<close>

datatype outcome = ConnectionFailed | HttpError | NotJson | Body json

record request =
  url :: string
  params :: dict

datatype event = Get request | Sleep rat

record world =
  net :: "nat \<Rightarrow> outcome"
  log :: "event list"

fun requests :: "event list \<Rightarrow> request list" where
  "requests [] = []"
| "requests (Get r # es) = r # requests es"
| "requests (Sleep d # es) = requests es"

definition sleep :: "rat \<Rightarrow> world \<Rightarrow> world" where
  "sleep d w = w\<lparr>log := log w @ [Sleep d]\<rparr>"

definition session_get :: "string \<Rightarrow> dict \<Rightarrow> world \<Rightarrow> outcome \<times> world" where
  "session_get u ps w =
     (net w (length (requests (log w))), w\<lparr>log := log w @ [Get \<lparr>url = u, params = ps\<rparr>]\<rparr>)"

text \<open>
  \<^verbatim>\<open>
  response = self.session.get(url, params=params)
  response.raise_for_status()
  data = response.json()
  \<close>
  The first two raise a RequestException; the exception of the third is a ValueError (and,
  in recent versions of the library, a RequestException too: both handlers of the callers
  do the same).
\<close>

fun response_json :: "outcome \<Rightarrow> error + json" where
  "response_json ConnectionFailed = Inl RequestException"
| "response_json HttpError = Inl RequestException"
| "response_json NotJson = Inl ValueError"
| "response_json (Body data) = Inr data"

record scraper =
  api_key :: string
  base_url :: string

definition init :: "string \<Rightarrow> scraper" where
  "init key = \<lparr>api_key = key, base_url = GOOGLE_PLACES_BASE_URL\<rparr>"

text \<open>
  \<^verbatim>\<open>places.extend(x)\<close> iterates over \<^verbatim>\<open>x\<close>: a list gives its elements, a dictionary its
  keys, a string its characters; anything else raises TypeError and leaves \<^verbatim>\<open>places\<close>
  as it was.
\<close>

fun iterate :: "json \<Rightarrow> error + json list" where
  "iterate (JArr xs) = Inr xs"
| "iterate (JObj d) = Inr (map (\<lambda>(k, v). JStr k) d)"
| "iterate (JStr s) = Inr (map (\<lambda>c. JStr [c]) s)"
| "iterate _ = Inl TypeError"

text \<open>
  The body of the \<^verbatim>\<open>try\<close> of \<^verbatim>\<open>search_places\<close>, after the request. It ends with the
  \<^verbatim>\<open>break\<close> of ZERO_RESULTS, with an exception, or with the results to append and the
  value of \<^verbatim>\<open>next_page_token\<close>.
\<close>

datatype page = ZeroResults | Results "json list" json

definition search_try :: "outcome \<Rightarrow> error + page" where
  "search_try out =
     then_do (response_json out) (\<lambda>data.
     then_do (subscript data ''status'') (\<lambda>status.
     then_do (as_dict data) (\<lambda>d.
     if status \<noteq> JStr ''OK'' then
       (if status = JStr ''ZERO_RESULTS'' then Inr ZeroResults
        else Inl (ApiError status (get d ''error_message'' (JStr ''''))))
     else
       then_do (iterate (get d ''results'' (JArr []))) (\<lambda>results.
       Inr (Results results (get d ''next_page_token'' JNull))))))"

text \<open>
  The start of one round of the loop: the parameters, with the page token and the wait
  when there is a token, and the request.
\<close>

definition search_request ::
  "scraper \<Rightarrow> string \<Rightarrow> string \<Rightarrow> int \<Rightarrow> json \<Rightarrow> world \<Rightarrow> outcome \<times> world" where
  "search_request self place_type location radius next_page_token w =
     (let u = base_url self @ ''/textsearch/json'';
          ps = [(''key'', JStr (api_key self)),
                (''query'', JStr (place_type @ '' in '' @ location)),
                (''radius'', JInt radius)]
      in if truthy next_page_token
         then session_get u (setitem ps ''pagetoken'' next_page_token) (sleep PAGINATION_DELAY w)
         else session_get u ps w)"

text \<open>
  The \<^verbatim>\<open>while True\<close> loop of \<^verbatim>\<open>search_places\<close>. Both \<^verbatim>\<open>except\<close> clauses print and
  \<^verbatim>\<open>break\<close>. The loop goes on as long as the provider hands out page tokens, so the
  function is partial: \<open>None\<close> is the run that never returns.
\<close>

partial_function (option) search_loop ::
  "scraper \<Rightarrow> string \<Rightarrow> string \<Rightarrow> int \<Rightarrow> json list \<Rightarrow> json \<Rightarrow> world
     \<Rightarrow> (json list \<times> world) option" where
  "search_loop self place_type location radius places next_page_token w =
     (case search_request self place_type location radius next_page_token w of
        (out, w') \<Rightarrow>
          (case search_try out of
             Inl e \<Rightarrow> Some (places, w')
           | Inr ZeroResults \<Rightarrow> Some (places, w')
           | Inr (Results results token) \<Rightarrow>
               if \<not> truthy token then Some (places @ results, w')
               else search_loop self place_type location radius (places @ results) token w'))"

definition search_places ::
  "scraper \<Rightarrow> string \<Rightarrow> string \<Rightarrow> int \<Rightarrow> world \<Rightarrow> (json list \<times> world) option" where
  "search_places self place_type location radius w =
     search_loop self place_type location radius [] JNull w"

text \<open>
  \<^verbatim>\<open>get_place_details\<close>: one request; the body of the \<^verbatim>\<open>try\<close> returns \<^verbatim>\<open>None\<close> on a
  status other than OK and \<^verbatim>\<open>data.get('result')\<close> otherwise; both \<^verbatim>\<open>except\<close> clauses
  return \<^verbatim>\<open>None\<close>.
\<close>

definition details_try :: "outcome \<Rightarrow> error + json" where
  "details_try out =
     then_do (response_json out) (\<lambda>data.
     then_do (subscript data ''status'') (\<lambda>status.
     then_do (as_dict data) (\<lambda>d.
     if status \<noteq> JStr ''OK'' then Inr JNull
     else Inr (get d ''result'' JNull))))"

definition get_place_details :: "scraper \<Rightarrow> json \<Rightarrow> world \<Rightarrow> json \<times> world" where
  "get_place_details self place_id w =
     (let u = base_url self @ ''/details/json'';
          ps = [(''key'', JStr (api_key self)),
                (''place_id'', place_id),
                (''fields'', JStr PLACE_DETAIL_FIELDS)]
      in case session_get u ps w of
           (out, w') \<Rightarrow>
             (case details_try out of Inl e \<Rightarrow> (JNull, w') | Inr result \<Rightarrow> (result, w')))"

text \<open>
  The \<^verbatim>\<open>for\<close> loop of \<^verbatim>\<open>scrape_places\<close>. Nothing in it catches an exception: the
  \<^verbatim>\<open>place.get\<close> of the progress message, \<^verbatim>\<open>place['place_id']\<close> and
  \<^verbatim>\<open>extract_place_data\<close> raise to the caller.
\<close>

definition fetch_details_step :: "scraper \<Rightarrow> bool \<Rightarrow> json \<Rightarrow> world \<Rightarrow> (error + json) \<times> world" where
  "fetch_details_step self fetch_details place w =
     (if fetch_details then
        (case subscript place ''place_id'' of
           Inl e \<Rightarrow> (Inl e, w)
         | Inr place_id \<Rightarrow>
             (case get_place_details self place_id w of
                (place_details, w') \<Rightarrow> (Inr place_details, sleep REQUEST_DELAY w')))
      else (Inr JNull, w))"

fun scrape_loop ::
  "scraper \<Rightarrow> bool \<Rightarrow> json list \<Rightarrow> dict list \<Rightarrow> world \<Rightarrow> (error + dict list) \<times> world" where
  "scrape_loop self fetch_details [] results w = (Inr results, w)"
| "scrape_loop self fetch_details (place # rest) results w =
     (case as_dict place of
        Inl e \<Rightarrow> (Inl e, w)
      | Inr p \<Rightarrow>
          (case fetch_details_step self fetch_details place w of
             (Inl e, w') \<Rightarrow> (Inl e, w')
           | (Inr place_details, w') \<Rightarrow>
               (case extract_place_data place place_details of
                  Inl e \<Rightarrow> (Inl e, w')
                | Inr extracted \<Rightarrow>
                    scrape_loop self fetch_details rest (results @ [extracted]) w')))"

definition scrape_places ::
  "scraper \<Rightarrow> string \<Rightarrow> string \<Rightarrow> bool \<Rightarrow> int \<Rightarrow> world
     \<Rightarrow> ((error + dict list) \<times> world) option" where
  "scrape_places self place_type location fetch_details radius w =
     (case search_places self place_type location radius w of
        None \<Rightarrow> None
      | Some (places_basic, w') \<Rightarrow>
          if places_basic = [] then Some (Inr [], w')
          else Some (scrape_loop self fetch_details places_basic [] w'))"

section \<open>The specification's words\<close>

text \<open>
  A sanitized filename token in the words of the specification: lowercase ASCII letters,
  digits, underscore and hyphen.
\<close>

definition spec_filename_char :: "nat \<Rightarrow> bool" where
  "spec_filename_char n =
     ((48 \<le> n \<and> n \<le> 57) \<or> (97 \<le> n \<and> n \<le> 122) \<or> n = ord CHR ''_'' \<or> n = ord CHR ''-'')"

text \<open>
  The records of the specification's data model, as far as \<open>extract_place_data\<close> reads
  them. A BasicResult is a dictionary with an identifier whose geometry, when it has one,
  is a dictionary, and so is the location in it. A DetailResult is a dictionary whose phone
  number, when it has one, is a string (or empty), whose geometry, when it has one, is a
  dictionary, and whose location is a dictionary or empty.
\<close>

definition location_of :: "dict \<Rightarrow> json" where
  "location_of d = (case get d ''geometry'' (JObj []) of
                      JObj geometry \<Rightarrow> get geometry ''location'' (JObj [])
                    | _ \<Rightarrow> JNull)"

definition is_dict :: "json \<Rightarrow> bool" where
  "is_dict v = (case v of JObj d \<Rightarrow> True | _ \<Rightarrow> False)"

definition is_str :: "json \<Rightarrow> bool" where
  "is_str v = (case v of JStr s \<Rightarrow> True | _ \<Rightarrow> False)"

definition basic_result :: "json \<Rightarrow> bool" where
  "basic_result place =
     (case place of
        JObj d \<Rightarrow> map_of d ''place_id'' \<noteq> None
                  \<and> is_dict (get d ''geometry'' (JObj [])) \<and> is_dict (location_of d)
      | _ \<Rightarrow> False)"

definition detail_result :: "json \<Rightarrow> bool" where
  "detail_result details =
     (case details of
        JObj d \<Rightarrow>
          (let phone = get d ''formatted_phone_number'' (JStr '''')
           in (truthy phone \<and> is_str phone) \<or> \<not> truthy phone)
          \<and> is_dict (get d ''geometry'' (JObj []))
          \<and> ((truthy (location_of d) \<and> is_dict (location_of d)) \<or> \<not> truthy (location_of d))
      | _ \<Rightarrow> False)"

text \<open>
  A coordinate read from a location object, with the value to keep when the location has
  none; and the record that the basic fields alone give.
\<close>

definition coord :: "json \<Rightarrow> string \<Rightarrow> json \<Rightarrow> json" where
  "coord location k dflt = (case location of JObj l \<Rightarrow> get l k dflt | _ \<Rightarrow> dflt)"

definition basic_record :: "dict \<Rightarrow> dict" where
  "basic_record pb =
     [(''name'', get pb ''name'' (JStr '''')),
      (''place_id'', get pb ''place_id'' (JStr '''')),
      (''address'', get pb ''formatted_address'' (JStr '''')),
      (''latitude'', coord (location_of pb) ''lat'' (JStr '''')),
      (''longitude'', coord (location_of pb) ''lng'' (JStr '''')),
      (''rating'', get pb ''rating'' (JStr '''')),
      (''user_ratings_total'', get pb ''user_ratings_total'' (JStr '''')),
      (''phone_number'', JStr ''''),
      (''website'', JStr '''')]"

text \<open>
  What a response says: its status (none when the request failed, the body is no
  dictionary or has no status), and the detail record it carries (\<open>None\<close> unless the
  status is OK).
\<close>

definition status_of :: "outcome \<Rightarrow> json option" where
  "status_of out = (case out of Body (JObj d) \<Rightarrow> map_of d ''status'' | _ \<Rightarrow> None)"

definition detail_of :: "outcome \<Rightarrow> json" where
  "detail_of out =
     (case out of
        Body (JObj d) \<Rightarrow>
          if map_of d ''status'' = Some (JStr ''OK'') then get d ''result'' JNull else JNull
      | _ \<Rightarrow> JNull)"


definition continues :: "outcome \<Rightarrow> bool" where
  "continues out =
     (case out of
        Body (JObj d) \<Rightarrow>
          map_of d ''status'' = Some (JStr ''OK'')
          \<and> (case iterate (get d ''results'' (JArr [])) of Inr rs \<Rightarrow> True | Inl e \<Rightarrow> False)
          \<and> truthy (get d ''next_page_token'' JNull)
      | _ \<Rightarrow> False)"

definition page_records :: "outcome \<Rightarrow> json list" where
  "page_records out =
     (case out of
        Body (JObj d) \<Rightarrow>
          (case iterate (get d ''results'' (JArr [])) of Inr rs \<Rightarrow> rs | Inl e \<Rightarrow> [])
      | _ \<Rightarrow> [])"

definition accumulated :: "world \<Rightarrow> nat \<Rightarrow> json list" where
  "accumulated w k =
     concat (map (\<lambda>j. page_records (net w (length (requests (log w)) + j))) [0..<k])"

text \<open>
  The detail record that the \<open>i\<close>-th place of the loop of \<open>scrape_places\<close> gets, when
  the loop starts in the world \<open>w\<close>: the one of the \<open>i\<close>-th next response when details are
  fetched, \<open>None\<close> otherwise. It is a DetailResult or absent.
\<close>

definition detail_for :: "bool \<Rightarrow> world \<Rightarrow> nat \<Rightarrow> json" where
  "detail_for fetch_details w i =
     (if fetch_details then detail_of (net w (length (requests (log w)) + i)) else JNull)"

definition detail_or_absent :: "json \<Rightarrow> bool" where
  "detail_or_absent d = (detail_result d \<or> \<not> truthy d)"

text \<open>The radius parameter of each request made so far.\<close>

definition radii :: "world \<Rightarrow> json option list" where
  "radii w = map (\<lambda>q. map_of (params q) ''radius'') (requests (log w))"

section \<open>Example records\<close>

definition basic_cafe :: dict where
  "basic_cafe =
     [(''place_id'', JStr ''p1''), (''name'', JStr ''Cafe''),
      (''formatted_address'', JStr ''1 Main St''), (''rating'', JFloat (9 / 2)),
      (''user_ratings_total'', JInt 10),
      (''geometry'', JObj [(''location'', JObj [(''lat'', JInt 1), (''lng'', JInt 2)])])]"

definition detail_cafe :: dict where
  "detail_cafe =
     [(''name'', JStr ''''), (''rating'', JFloat 4),
      (''formatted_phone_number'', JStr ''(555) 123-4567''),
      (''geometry'', JObj [(''location'', JObj [(''lat'', JInt 3)])])]"

section \<open>Example worlds\<close>

text \<open>
  Responses and worlds for the examples: a page with one record and a page token, a last
  page with two records, a body with a status only; networks that reject or end the
  search on the second request, that are offline, that find nothing, and that answer a
  search and one detail lookup; an operating system on which files ending in \<open>.csv\<close>
  cannot be written.
\<close>

definition basic_bar :: dict where
  "basic_bar = [(''place_id'', JStr ''p2''), (''name'', JStr ''Bar'')]"

definition page_with_token :: json where
  "page_with_token =
     JObj [(''status'', JStr ''OK''), (''results'', JArr [JObj basic_cafe]),
           (''next_page_token'', JStr ''t1'')]"

definition last_page :: json where
  "last_page =
     JObj [(''status'', JStr ''OK''), (''results'', JArr [JObj basic_cafe, JObj basic_bar])]"

definition status_page :: "string \<Rightarrow> json" where
  "status_page s = JObj [(''status'', JStr s)]"



definition zero_world :: world where
  "zero_world =
     \<lparr>net = (\<lambda>n. if n = 0 then Body page_with_token else Body (status_page ''ZERO_RESULTS'')),
      log = []\<rparr>"

definition empty_world :: world where
  "empty_world = \<lparr>net = (\<lambda>n. Body (status_page ''ZERO_RESULTS'')), log = []\<rparr>"

definition detail_world :: world where
  "detail_world =
     \<lparr>net = (\<lambda>n. if n = 0 then Body last_page
                 else if n = 1 then Body (JObj [(''status'', JStr ''OK''),
                                                (''result'', JObj detail_cafe)])
                 else ConnectionFailed),
      log = []\<rparr>"


definition csv_denied :: os where
  "csv_denied =
     \<lparr>now = (\<lambda>n. 1700000000 + int n), reads = 0,
      write_fails = (\<lambda>n f. drop (length f - 4) f = literal ''.csv''), opened = []\<rparr>"

text \<open>The location of the specification's example, with U+00E3 for its second letter.\<close>

definition sao_paulo :: str where
  "sao_paulo = literal ''S'' @ [0xE3] @ literal ''o Paulo, BR''"

section \<open>Properties\<close>

lemma replace_remove: "replace old [] s = filter (\<lambda>c. c \<noteq> old) s"
  by (induction s) (simp_all add: replace_def)

text \<open>
  C5. On a string that starts with \<open>+\<close>, \<open>format_phone_number\<close> returns the string as it
  is; on any other string it returns the string without its spaces, hyphens and
  parentheses. The two examples of the specification are instances.
\<close>

theorem format_phone_number_spec:
  "format_phone_number (JStr s) =
     Inr (if startswith s ''+'' then s
          else filter (\<lambda>c. c \<notin> {CHR '' '', CHR ''-'', CHR ''('', CHR '')''}) s)
   \<and> format_phone_number (JStr ''+1 (555) 123-4567'') = Inr ''+1 (555) 123-4567''
   \<and> format_phone_number (JStr ''(555) 123-4567'') = Inr ''5551234567''"
proof -
  have general: "format_phone_number (JStr s) =
     Inr (if startswith s ''+'' then s
          else filter (\<lambda>c. c \<notin> {CHR '' '', CHR ''-'', CHR ''('', CHR '')''}) s)" for s
  proof (cases "s = []")
    case True
    then show ?thesis by (simp add: format_phone_number_def startswith_def)
  next
    case False
    have "filter (\<lambda>c. c \<noteq> CHR '')'') (filter (\<lambda>c. c \<noteq> CHR ''('')
            (filter (\<lambda>c. c \<noteq> CHR ''-'') (filter (\<lambda>c. c \<noteq> CHR '' '') s)))
          = filter (\<lambda>c. c \<notin> {CHR '' '', CHR ''-'', CHR ''('', CHR '')''}) s"
      by (induction s) auto
    with False show ?thesis
      by (simp add: format_phone_number_def replace_remove)
  qed
  show ?thesis
    by (simp add: general startswith_def)
qed

subsection \<open>Filename sanitization\<close>

lemma replace_char: "replace old [new] s = map (\<lambda>c. if c = old then new else c) s"
  by (induction s) (simp_all add: replace_def)

lemma lower_latin1_alnum:
  "isalnum_latin1 c \<Longrightarrow> isalnum_latin1 (lower_latin1 c) \<and> \<not> isupper_latin1 (lower_latin1 c)"
  by (auto simp: lower_latin1_def isalnum_latin1_def isupper_latin1_def)

lemma lower_latin1_ascii:
  "isalnum_latin1 c \<Longrightarrow> c < 128 \<Longrightarrow> spec_filename_char (lower_latin1 c)"
  by (auto simp: lower_latin1_def isalnum_latin1_def isupper_latin1_def spec_filename_char_def)

lemma lower_latin1_punct:
  "lower_latin1 (ord CHR ''_'') = ord CHR ''_''" "lower_latin1 (ord CHR ''-'') = ord CHR ''-''"
  by (simp_all add: lower_latin1_def isupper_latin1_def ord_def)

lemma agrees_latin1_latin1: "agrees_latin1 latin1"
  by (simp add: agrees_latin1_def latin1_def)

lemma sanitize_filename_eq:
  "sanitize_filename ucd text =
     lower ucd (filter (\<lambda>c. isalnum ucd c \<or> c = ord CHR ''_'' \<or> c = ord CHR ''-'')
       (map (\<lambda>c. if c = ord CHR '' '' \<or> c = ord CHR '','' \<or> c = ord CHR ''/''
                 then ord CHR ''_'' else c) text))"
proof -
  have "(\<lambda>c. if (if (if c = ord CHR '' '' then ord CHR ''_'' else c) = ord CHR '',''
                    then ord CHR ''_''
                    else if c = ord CHR '' '' then ord CHR ''_'' else c) = ord CHR ''/''
             then ord CHR ''_''
             else if (if c = ord CHR '' '' then ord CHR ''_'' else c) = ord CHR '',''
                  then ord CHR ''_''
                  else if c = ord CHR '' '' then ord CHR ''_'' else c)
        = (\<lambda>c. if c = ord CHR '' '' \<or> c = ord CHR '','' \<or> c = ord CHR ''/''
                then ord CHR ''_'' else c)"
    by (auto simp: ord_def)
  then show ?thesis
    by (simp add: sanitize_filename_def literal_def replace_char o_def)
qed

lemma sanitize_filename_latin1:
  assumes "agrees_latin1 ucd" and "\<forall>c \<in> set text. c < 256"
  shows "sanitize_filename ucd text =
     map lower_latin1 (filter (\<lambda>c. isalnum_latin1 c \<or> c = ord CHR ''_'' \<or> c = ord CHR ''-'')
       (map (\<lambda>c. if c = ord CHR '' '' \<or> c = ord CHR '','' \<or> c = ord CHR ''/''
                 then ord CHR ''_'' else c) text))"
proof -
  let ?under = "map (\<lambda>c. if c = ord CHR '' '' \<or> c = ord CHR '','' \<or> c = ord CHR ''/''
                 then ord CHR ''_'' else c) text"
  have small: "\<forall>c \<in> set ?under. c < 256"
    using assms(2) by (auto simp: ord_def)
  have "filter (\<lambda>c. isalnum ucd c \<or> c = ord CHR ''_'' \<or> c = ord CHR ''-'') ?under
          = filter (\<lambda>c. isalnum_latin1 c \<or> c = ord CHR ''_'' \<or> c = ord CHR ''-'') ?under"
    using small assms(1) by (intro filter_cong refl) (simp add: agrees_latin1_def)
  moreover have "\<forall>c \<in> set (filter (\<lambda>c. isalnum_latin1 c \<or> c = ord CHR ''_'' \<or> c = ord CHR ''-'')
                    ?under). c < 256"
    using small by simp
  ultimately show ?thesis
    using assms(1) by (simp add: sanitize_filename_eq agrees_latin1_def)
qed

text \<open>
  C6, as the specification has it, fails: \<^verbatim>\<open>str.isalnum\<close> accepts the letter U+00E3, and
  the comma and the space of the location each give an underscore, so the result is
  neither \<^verbatim>\<open>so_paulo_br\<close> nor made of lowercase ASCII letters, digits, underscore and
  hyphen only.
\<close>

theorem sanitize_filename_counterexample:
  "sanitize_filename latin1 sao_paulo \<noteq> literal ''so_paulo_br''
   \<and> \<not> list_all spec_filename_char (sanitize_filename latin1 sao_paulo)"
  by (simp add: sanitize_filename_latin1 [OF agrees_latin1_latin1] sao_paulo_def literal_def
        ord_def isalnum_latin1_def isupper_latin1_def lower_latin1_def spec_filename_char_def)

text \<open>
  C6, amended. For every string, of any code points and whatever the database,
  \<open>sanitize_filename\<close> returns the lower-casing of a string of alphanumeric characters
  (as \<^verbatim>\<open>str.isalnum\<close> has them, in any script), underscores and hyphens: the text with each
  space, comma and slash turned into one underscore and every other character that is
  neither alphanumeric nor underscore nor hyphen dropped. With the interpreter's
  database, the result of an ASCII text has lowercase ASCII letters, digits, underscore
  and hyphen only; the result of a text below U+0100 has underscores, hyphens and
  alphanumeric characters that are not upper case; \<^verbatim>\<open>"gas station"\<close> gives
  \<^verbatim>\<open>gas_station\<close>; and the location with U+00E3 gives \<open>s\<close>, U+00E3, \<open>o_paulo__br\<close>, with
  the letter kept and two underscores.
\<close>

theorem sanitize_filename_chars:
  "sanitize_filename ucd text =
     lower ucd (filter (\<lambda>c. isalnum ucd c \<or> c = ord CHR ''_'' \<or> c = ord CHR ''-'')
       (map (\<lambda>c. if c = ord CHR '' '' \<or> c = ord CHR '','' \<or> c = ord CHR ''/''
                 then ord CHR ''_'' else c) text))
   \<and> (agrees_latin1 ucd \<longrightarrow>
        ((\<forall>c \<in> set text. c < 128) \<longrightarrow>
           (\<forall>c \<in> set (sanitize_filename ucd text). spec_filename_char c))
      \<and> ((\<forall>c \<in> set text. c < 256) \<longrightarrow>
           (\<forall>c \<in> set (sanitize_filename ucd text).
              c = ord CHR ''_'' \<or> c = ord CHR ''-'' \<or> (isalnum_latin1 c \<and> \<not> isupper_latin1 c)))
      \<and> sanitize_filename ucd (literal ''gas station'') = literal ''gas_station''
      \<and> sanitize_filename ucd sao_paulo = literal ''s'' @ [0xE3] @ literal ''o_paulo__br'')"
proof (intro conjI impI)
  assume agrees: "agrees_latin1 ucd"
  {
    assume ascii: "\<forall>c \<in> set text. c < 128"
    then have "\<forall>c \<in> set text. c < 256" by auto
    from sanitize_filename_latin1 [OF agrees this]
    show "\<forall>c \<in> set (sanitize_filename ucd text). spec_filename_char c"
      using ascii lower_latin1_ascii lower_latin1_punct
      by (auto simp: spec_filename_char_def ord_def split: if_splits)
  }
  {
    assume "\<forall>c \<in> set text. c < 256"
    from sanitize_filename_latin1 [OF agrees this]
    show "\<forall>c \<in> set (sanitize_filename ucd text).
              c = ord CHR ''_'' \<or> c = ord CHR ''-'' \<or> (isalnum_latin1 c \<and> \<not> isupper_latin1 c)"
      using lower_latin1_alnum lower_latin1_punct by auto
  }
  have "\<forall>c \<in> set (literal ''gas station''). c < 256"
    by (simp add: literal_def ord_def)
  from sanitize_filename_latin1 [OF agrees this]
  show "sanitize_filename ucd (literal ''gas station'') = literal ''gas_station''"
    by (simp add: literal_def ord_def isalnum_latin1_def isupper_latin1_def lower_latin1_def)
  have "\<forall>c \<in> set sao_paulo. c < 256"
    by (simp add: sao_paulo_def literal_def ord_def)
  from sanitize_filename_latin1 [OF agrees this]
  show "sanitize_filename ucd sao_paulo = literal ''s'' @ [0xE3] @ literal ''o_paulo__br''"
    by (simp add: sao_paulo_def literal_def ord_def isalnum_latin1_def isupper_latin1_def
          lower_latin1_def)
qed (rule sanitize_filename_eq)

theorem sanitize_filename_chars_witness:
  "agrees_latin1 latin1
   \<and> list_all (\<lambda>c. c < 128) (literal ''Gas-Station 24/7'')
   \<and> sanitize_filename latin1 (literal ''Gas-Station 24/7'') = literal ''gas-station_24_7''
   \<and> list_all spec_filename_char (sanitize_filename latin1 (literal ''Gas-Station 24/7''))"
proof -
  have ascii: "\<forall>c \<in> set (literal ''Gas-Station 24/7''). c < 128"
    by (simp add: literal_def ord_def)
  with sanitize_filename_chars [of latin1 "literal ''Gas-Station 24/7''"] agrees_latin1_latin1
  have "\<forall>c \<in> set (sanitize_filename latin1 (literal ''Gas-Station 24/7'')). spec_filename_char c"
    by blast
  then have "list_all spec_filename_char (sanitize_filename latin1 (literal ''Gas-Station 24/7''))"
    by (simp add: list_all_iff)
  moreover from sanitize_filename_chars [of latin1 "literal ''Gas-Station 24/7''"]
  have "sanitize_filename latin1 (literal ''Gas-Station 24/7'')
          = map lower_latin1 (filter (\<lambda>c. isalnum_latin1 c \<or> c = ord CHR ''_'' \<or> c = ord CHR ''-'')
       (map (\<lambda>c. if c = ord CHR '' '' \<or> c = ord CHR '','' \<or> c = ord CHR ''/''
                 then ord CHR ''_'' else c) (literal ''Gas-Station 24/7'')))"
    by (simp add: latin1_def)
  then have "sanitize_filename latin1 (literal ''Gas-Station 24/7'') = literal ''gas-station_24_7''"
    by (simp add: literal_def ord_def isalnum_latin1_def isupper_latin1_def lower_latin1_def)
  moreover have "list_all (\<lambda>c. c < 128) (literal ''Gas-Station 24/7'')"
    using ascii by (simp add: list_all_iff)
  ultimately show ?thesis
    using agrees_latin1_latin1 by (intro conjI)
qed

subsection \<open>Merging the basic and the detail record\<close>

lemma is_dictE: "is_dict v \<Longrightarrow> (\<And>d. v = JObj d \<Longrightarrow> P) \<Longrightarrow> P"
  by (cases v) (simp_all add: is_dict_def)

lemma extract_basic:
  assumes "basic_result (JObj pb)" and "\<not> truthy d"
  shows "extract_place_data (JObj pb) d = Inr (basic_record pb)"
proof -
  from assms(1) obtain g where g: "get pb ''geometry'' (JObj []) = JObj g"
    by (auto simp: basic_result_def elim: is_dictE)
  from assms(1) g obtain l where l: "get g ''location'' (JObj []) = JObj l"
    by (auto simp: basic_result_def location_of_def elim: is_dictE)
  show ?thesis
    using assms(2)
    by (simp add: extract_place_data_def then_do_def g l basic_record_def location_of_def coord_def)
qed

lemma format_phone_number_total:
  "\<not> truthy v \<or> is_str v \<Longrightarrow> \<exists>phone. format_phone_number v = Inr phone"
  by (cases v) (auto simp: format_phone_number_def is_str_def Let_def)

lemma phone_ok:
  assumes "detail_result (JObj pd)"
  shows "\<exists>phone. format_phone_number (get pd ''formatted_phone_number'' (JStr '''')) = Inr phone"
  using assms by (intro format_phone_number_total) (auto simp: detail_result_def Let_def)

lemma extract_detail:
  assumes "basic_result (JObj pb)" and "detail_result (JObj pd)" and "pd \<noteq> []"
    and phone: "format_phone_number (get pd ''formatted_phone_number'' (JStr '''')) = Inr phone"
  shows "extract_place_data (JObj pb) (JObj pd) = Inr
     [(''name'', get pd ''name'' (get pb ''name'' (JStr ''''))),
      (''place_id'', get pb ''place_id'' (JStr '''')),
      (''address'', get pd ''formatted_address'' (get pb ''formatted_address'' (JStr ''''))),
      (''latitude'', if truthy (location_of pd)
                     then coord (location_of pd) ''lat'' (coord (location_of pb) ''lat'' (JStr ''''))
                     else coord (location_of pb) ''lat'' (JStr '''')),
      (''longitude'', if truthy (location_of pd)
                      then coord (location_of pd) ''lng'' (coord (location_of pb) ''lng'' (JStr ''''))
                      else coord (location_of pb) ''lng'' (JStr '''')),
      (''rating'', get pd ''rating'' (get pb ''rating'' (JStr ''''))),
      (''user_ratings_total'', get pd ''user_ratings_total'' (get pb ''user_ratings_total'' (JStr ''''))),
      (''phone_number'', JStr phone),
      (''website'', get pd ''website'' (JStr ''''))]"
proof -
  from assms(1) obtain g where g: "get pb ''geometry'' (JObj []) = JObj g"
    by (auto simp: basic_result_def elim: is_dictE)
  from assms(1) g obtain l where l: "get g ''location'' (JObj []) = JObj l"
    by (auto simp: basic_result_def location_of_def elim: is_dictE)
  from assms(2) obtain dg where dg: "get pd ''geometry'' (JObj []) = JObj dg"
    by (auto simp: detail_result_def elim: is_dictE)
  show ?thesis
  proof (cases "truthy (get dg ''location'' (JObj []))")
    case True
    with assms(2) dg obtain dl where dl: "get dg ''location'' (JObj []) = JObj dl"
      by (auto simp: detail_result_def location_of_def elim: is_dictE)
    with True have "dl \<noteq> []" by simp
    then show ?thesis
      using assms(3)
      by (simp add: extract_place_data_def then_do_def g l dg dl phone location_of_def coord_def
            update_def item_def)
  next
    case False
    then have "coord (get dg ''location'' (JObj [])) k x = x" for k x
      by (cases "get dg ''location'' (JObj [])") (simp_all add: coord_def get_def)
    with False show ?thesis
      using assms(3)
      by (simp add: extract_place_data_def then_do_def g l dg phone location_of_def
            update_def item_def) (simp add: coord_def)
  qed
qed

lemma basic_cafe_ok: "basic_result (JObj basic_cafe)"
  by (simp add: basic_cafe_def basic_result_def is_dict_def get_def location_of_def)

lemma detail_cafe_ok: "detail_result (JObj detail_cafe)"
  by (simp add: detail_cafe_def detail_result_def is_dict_def is_str_def get_def location_of_def)

text \<open>
  C2. With a detail record (a DetailResult that is not empty), \<open>extract_place_data\<close> takes
  name, address, rating and rating count from the detail record, each over the basic
  value; phone (formatted) and website come from the detail record only; latitude and
  longitude come from the detail location when it is a non-empty object, and are the basic
  coordinates when it is absent or empty. With no detail record (\<open>None\<close>, or any value
  that is not true), every field, rating included, is the basic record's, and phone and
  website are empty.
\<close>

theorem extract_place_data_precedence:
  assumes "basic_result (JObj pb)"
  shows "(\<not> truthy d \<longrightarrow> extract_place_data (JObj pb) d = Inr (basic_record pb))
     \<and> (detail_result (JObj pd) \<and> pd \<noteq> [] \<longrightarrow>
         (\<exists>phone. format_phone_number (get pd ''formatted_phone_number'' (JStr '''')) = Inr phone
            \<and> extract_place_data (JObj pb) (JObj pd) = Inr
     [(''name'', get pd ''name'' (get pb ''name'' (JStr ''''))),
      (''place_id'', get pb ''place_id'' (JStr '''')),
      (''address'', get pd ''formatted_address'' (get pb ''formatted_address'' (JStr ''''))),
      (''latitude'', if truthy (location_of pd)
                     then coord (location_of pd) ''lat'' (coord (location_of pb) ''lat'' (JStr ''''))
                     else coord (location_of pb) ''lat'' (JStr '''')),
      (''longitude'', if truthy (location_of pd)
                      then coord (location_of pd) ''lng'' (coord (location_of pb) ''lng'' (JStr ''''))
                      else coord (location_of pb) ''lng'' (JStr '''')),
      (''rating'', get pd ''rating'' (get pb ''rating'' (JStr ''''))),
      (''user_ratings_total'', get pd ''user_ratings_total'' (get pb ''user_ratings_total'' (JStr ''''))),
      (''phone_number'', JStr phone),
      (''website'', get pd ''website'' (JStr ''''))]))"
proof (intro conjI impI)
  assume "\<not> truthy d"
  with assms show "extract_place_data (JObj pb) d = Inr (basic_record pb)"
    by (rule extract_basic)
next
  assume d: "detail_result (JObj pd) \<and> pd \<noteq> []"
  then obtain phone
    where "format_phone_number (get pd ''formatted_phone_number'' (JStr '''')) = Inr phone"
    using phone_ok by blast
  with assms d show "\<exists>phone. format_phone_number (get pd ''formatted_phone_number'' (JStr '''')) = Inr phone
            \<and> extract_place_data (JObj pb) (JObj pd) = Inr
     [(''name'', get pd ''name'' (get pb ''name'' (JStr ''''))),
      (''place_id'', get pb ''place_id'' (JStr '''')),
      (''address'', get pd ''formatted_address'' (get pb ''formatted_address'' (JStr ''''))),
      (''latitude'', if truthy (location_of pd)
                     then coord (location_of pd) ''lat'' (coord (location_of pb) ''lat'' (JStr ''''))
                     else coord (location_of pb) ''lat'' (JStr '''')),
      (''longitude'', if truthy (location_of pd)
                      then coord (location_of pd) ''lng'' (coord (location_of pb) ''lng'' (JStr ''''))
                      else coord (location_of pb) ''lng'' (JStr '''')),
      (''rating'', get pd ''rating'' (get pb ''rating'' (JStr ''''))),
      (''user_ratings_total'', get pd ''user_ratings_total'' (get pb ''user_ratings_total'' (JStr ''''))),
      (''phone_number'', JStr phone),
      (''website'', get pd ''website'' (JStr ''''))]"
    using extract_detail by blast
qed

theorem extract_place_data_precedence_witness:
  "basic_result (JObj basic_cafe) \<and> detail_result (JObj detail_cafe) \<and> detail_cafe \<noteq> []
   \<and> extract_place_data (JObj basic_cafe) JNull = Inr
       [(''name'', JStr ''Cafe''), (''place_id'', JStr ''p1''), (''address'', JStr ''1 Main St''),
        (''latitude'', JInt 1), (''longitude'', JInt 2), (''rating'', JFloat (9 / 2)),
        (''user_ratings_total'', JInt 10), (''phone_number'', JStr ''''), (''website'', JStr '''')]
   \<and> extract_place_data (JObj basic_cafe) (JObj detail_cafe) = Inr
       [(''name'', JStr ''''), (''place_id'', JStr ''p1''), (''address'', JStr ''1 Main St''),
        (''latitude'', JInt 3), (''longitude'', JInt 2), (''rating'', JFloat 4),
        (''user_ratings_total'', JInt 10), (''phone_number'', JStr ''5551234567''),
        (''website'', JStr '''')]"
proof -
  note main = extract_place_data_precedence [OF basic_cafe_ok, of JNull detail_cafe]
  have d: "detail_result (JObj detail_cafe) \<and> detail_cafe \<noteq> []"
    using detail_cafe_ok by (simp add: detail_cafe_def)
  have phone: "format_phone_number (get detail_cafe ''formatted_phone_number'' (JStr ''''))
                 = Inr ''5551234567''"
    by (simp add: detail_cafe_def get_def format_phone_number_def replace_def startswith_def)
  from main have "extract_place_data (JObj basic_cafe) JNull = Inr (basic_record basic_cafe)"
    by simp
  then have 1: "extract_place_data (JObj basic_cafe) JNull = Inr
       [(''name'', JStr ''Cafe''), (''place_id'', JStr ''p1''), (''address'', JStr ''1 Main St''),
        (''latitude'', JInt 1), (''longitude'', JInt 2), (''rating'', JFloat (9 / 2)),
        (''user_ratings_total'', JInt 10), (''phone_number'', JStr ''''), (''website'', JStr '''')]"
    by (simp add: basic_record_def basic_cafe_def get_def location_of_def coord_def)
  from main d phone have 2: "extract_place_data (JObj basic_cafe) (JObj detail_cafe) = Inr
       [(''name'', JStr ''''), (''place_id'', JStr ''p1''), (''address'', JStr ''1 Main St''),
        (''latitude'', JInt 3), (''longitude'', JInt 2), (''rating'', JFloat 4),
        (''user_ratings_total'', JInt 10), (''phone_number'', JStr ''5551234567''),
        (''website'', JStr '''')]"
    by (simp add: basic_cafe_def detail_cafe_def get_def location_of_def coord_def)
  from basic_cafe_ok d 1 2 show ?thesis by blast
qed

text \<open>
  C10. The fallback for name, address, rating, rating count and website is taken only when
  the detail record has no such key: a key that is there gives its value to the output,
  whatever the value (the empty string, \<open>None\<close>, zero) and whatever the basic record has;
  a key that is not there leaves the basic value (the empty string for the website).
\<close>

theorem extract_place_data_fallback:
  assumes "basic_result (JObj pb)" and "detail_result (JObj pd)"
  shows "\<exists>r. extract_place_data (JObj pb) (JObj pd) = Inr r
     \<and> (\<forall>v. map_of pd ''name'' = Some v \<longrightarrow> map_of r ''name'' = Some v)
     \<and> (map_of pd ''name'' = None \<longrightarrow> map_of r ''name'' = Some (get pb ''name'' (JStr '''')))
     \<and> (\<forall>v. map_of pd ''formatted_address'' = Some v \<longrightarrow> map_of r ''address'' = Some v)
     \<and> (map_of pd ''formatted_address'' = None \<longrightarrow>
          map_of r ''address'' = Some (get pb ''formatted_address'' (JStr '''')))
     \<and> (\<forall>v. map_of pd ''rating'' = Some v \<longrightarrow> map_of r ''rating'' = Some v)
     \<and> (map_of pd ''rating'' = None \<longrightarrow> map_of r ''rating'' = Some (get pb ''rating'' (JStr '''')))
     \<and> (\<forall>v. map_of pd ''user_ratings_total'' = Some v \<longrightarrow> map_of r ''user_ratings_total'' = Some v)
     \<and> (map_of pd ''user_ratings_total'' = None \<longrightarrow>
          map_of r ''user_ratings_total'' = Some (get pb ''user_ratings_total'' (JStr '''')))
     \<and> (\<forall>v. map_of pd ''website'' = Some v \<longrightarrow> map_of r ''website'' = Some v)
     \<and> (map_of pd ''website'' = None \<longrightarrow> map_of r ''website'' = Some (JStr ''''))"
proof (cases "pd = []")
  case True
  with assms(1) have "extract_place_data (JObj pb) (JObj pd) = Inr (basic_record pb)"
    by (intro extract_basic) simp_all
  with True show ?thesis
    by (simp add: basic_record_def)
next
  case False
  from assms(2) obtain phone
    where "format_phone_number (get pd ''formatted_phone_number'' (JStr '''')) = Inr phone"
    using phone_ok by blast
  from extract_detail [OF assms False this] show ?thesis
    by (simp add: get_def)
qed

theorem extract_place_data_fallback_witness:
  "basic_result (JObj basic_cafe) \<and> detail_result (JObj detail_cafe)
   \<and> map_of basic_cafe ''name'' = Some (JStr ''Cafe'')
   \<and> map_of detail_cafe ''name'' = Some (JStr '''')
   \<and> map_of detail_cafe ''formatted_address'' = None
   \<and> (\<exists>r. extract_place_data (JObj basic_cafe) (JObj detail_cafe) = Inr r
          \<and> map_of r ''name'' = Some (JStr '''')
          \<and> map_of r ''address'' = Some (JStr ''1 Main St''))"
proof -
  from extract_place_data_fallback [OF basic_cafe_ok detail_cafe_ok]
  obtain r where r: "extract_place_data (JObj basic_cafe) (JObj detail_cafe) = Inr r"
    and name: "\<forall>v. map_of detail_cafe ''name'' = Some v \<longrightarrow> map_of r ''name'' = Some v"
    and addr: "map_of detail_cafe ''formatted_address'' = None \<longrightarrow>
          map_of r ''address'' = Some (get basic_cafe ''formatted_address'' (JStr ''''))"
    by (elim exE conjE) (rule that; assumption)
  have n: "map_of detail_cafe ''name'' = Some (JStr '''')"
    and a: "map_of detail_cafe ''formatted_address'' = None"
    and b: "map_of basic_cafe ''name'' = Some (JStr ''Cafe'')"
    and g: "get basic_cafe ''formatted_address'' (JStr '''') = JStr ''1 Main St''"
    by (simp_all add: detail_cafe_def basic_cafe_def get_def)
  from name n have "map_of r ''name'' = Some (JStr '''')" by blast
  moreover from addr a g have "map_of r ''address'' = Some (JStr ''1 Main St'')" by simp
  ultimately have "\<exists>r. extract_place_data (JObj basic_cafe) (JObj detail_cafe) = Inr r
          \<and> map_of r ''name'' = Some (JStr '''')
          \<and> map_of r ''address'' = Some (JStr ''1 Main St'')"
    using r by (intro exI [of _ r]) simp
  with basic_cafe_ok detail_cafe_ok n a b show ?thesis
    by (intro conjI)
qed

subsection \<open>Detail lookup\<close>

lemma details_try_cases:
  "details_try out = Inr (detail_of out) \<or> (\<exists>e. details_try out = Inl e \<and> detail_of out = JNull)"
proof (cases out)
  case (Body data)
  then show ?thesis
    by (cases data)
       (auto simp: details_try_def detail_of_def then_do_def split: option.splits)
qed (simp_all add: details_try_def detail_of_def then_do_def)

lemma requests_append [simp]: "requests (es @ fs) = requests es @ requests fs"
  by (induction es rule: requests.induct) simp_all

lemma get_place_details_eq:
  "get_place_details self place_id w =
     (detail_of (net w (length (requests (log w)))),
      w\<lparr>log := log w @ [Get \<lparr>url = base_url self @ ''/details/json'',
                             params = [(''key'', JStr (api_key self)), (''place_id'', place_id),
                                       (''fields'', JStr PLACE_DETAIL_FIELDS)]\<rparr>]\<rparr>)"
  using details_try_cases [of "net w (length (requests (log w)))"]
  by (auto simp: get_place_details_def session_get_def Let_def)




subsection \<open>Paged search\<close>

lemma search_request_props:
  "\<exists>w' q. search_request self pt loc r tok w = (net w (length (requests (log w))), w')
      \<and> net w' = net w \<and> requests (log w') = requests (log w) @ [q]
      \<and> map_of (params q) ''radius'' = Some (JInt r)
      \<and> url q = base_url self @ ''/textsearch/json''"
  by (simp add: search_request_def session_get_def sleep_def Let_def)

lemma search_try_continues:
  "continues out \<Longrightarrow> \<exists>tok. search_try out = Inr (Results (page_records out) tok) \<and> truthy tok"
  by (auto simp: continues_def page_records_def search_try_def then_do_def
           split: outcome.splits json.splits sum.splits)

lemma search_loop_stop:
  assumes "(\<exists>e. search_try (net w (length (requests (log w)))) = Inl e)
           \<or> search_try (net w (length (requests (log w)))) = Inr ZeroResults"
  shows "\<exists>w'. search_loop self pt loc r places tok w = Some (places, w')
           \<and> net w' = net w
           \<and> length (requests (log w')) = Suc (length (requests (log w)))"
proof -
  from search_request_props [of self pt loc r tok w] obtain w' q
    where sr: "search_request self pt loc r tok w = (net w (length (requests (log w))), w')"
      and w': "net w' = net w" "requests (log w') = requests (log w) @ [q]"
    by blast
  from assms sr have "search_loop self pt loc r places tok w = Some (places, w')"
    by (subst search_loop.simps) auto
  with w' show ?thesis by simp
qed

lemma search_loop_step:
  assumes "continues (net w (length (requests (log w))))"
  shows "\<exists>w' tok'. search_loop self pt loc r places tok w =
             search_loop self pt loc r
               (places @ page_records (net w (length (requests (log w))))) tok' w'
           \<and> net w' = net w
           \<and> length (requests (log w')) = Suc (length (requests (log w)))"
proof -
  from search_request_props [of self pt loc r tok w] obtain w' q
    where sr: "search_request self pt loc r tok w = (net w (length (requests (log w))), w')"
      and w': "net w' = net w" "requests (log w') = requests (log w) @ [q]"
    by blast
  from search_try_continues [OF assms] obtain tok'
    where st: "search_try (net w (length (requests (log w))))
                 = Inr (Results (page_records (net w (length (requests (log w))))) tok')"
      and tok': "truthy tok'"
    by blast
  from sr st tok' have "search_loop self pt loc r places tok w =
      search_loop self pt loc r (places @ page_records (net w (length (requests (log w))))) tok' w'"
    by (subst search_loop.simps) simp
  with w' show ?thesis by auto
qed

lemma accumulated_Suc:
  assumes "net w' = net w" and "length (requests (log w')) = Suc (length (requests (log w)))"
  shows "accumulated w (Suc k) = page_records (net w (length (requests (log w)))) @ accumulated w' k"
proof -
  have "[0..<Suc k] = 0 # map Suc [0..<k]"
    by (simp add: upt_conv_Cons map_Suc_upt del: upt_Suc)
  then show ?thesis
    using assms by (simp add: accumulated_def o_def del: upt_Suc)
qed

lemma search_loop_pages:
  assumes "\<forall>j<k. continues (net w (length (requests (log w)) + j))"
    and "(\<exists>e. search_try (net w (length (requests (log w)) + k)) = Inl e)
           \<or> search_try (net w (length (requests (log w)) + k)) = Inr ZeroResults"
  shows "\<exists>w'. search_loop self pt loc r places tok w = Some (places @ accumulated w k, w')
           \<and> net w' = net w
           \<and> length (requests (log w')) = length (requests (log w)) + k + 1"
  using assms
proof (induction k arbitrary: w places tok)
  case 0
  then show ?case
    using search_loop_stop [of w self pt loc r places tok] by (simp add: accumulated_def)
next
  case (Suc k)
  from Suc.prems(1) have "continues (net w (length (requests (log w))))"
    by (metis add.right_neutral zero_less_Suc)
  from search_loop_step [OF this, of self pt loc r places tok] obtain w1 tok1
    where step: "search_loop self pt loc r places tok w =
             search_loop self pt loc r
               (places @ page_records (net w (length (requests (log w))))) tok1 w1"
      and w1: "net w1 = net w" "length (requests (log w1)) = Suc (length (requests (log w)))"
    by blast
  have cont: "\<forall>j<k. continues (net w1 (length (requests (log w1)) + j))"
    using Suc.prems(1) w1 by auto
  have stop: "(\<exists>e. search_try (net w1 (length (requests (log w1)) + k)) = Inl e)
           \<or> search_try (net w1 (length (requests (log w1)) + k)) = Inr ZeroResults"
    using Suc.prems(2) w1 by simp
  from Suc.IH [OF cont stop, of "places @ page_records (net w (length (requests (log w))))" tok1]
  obtain w' where "search_loop self pt loc r
               (places @ page_records (net w (length (requests (log w))))) tok1 w1
        = Some ((places @ page_records (net w (length (requests (log w))))) @ accumulated w1 k, w')"
      and "net w' = net w1" "length (requests (log w')) = length (requests (log w1)) + k + 1"
    by blast
  with step w1 accumulated_Suc [OF w1, of k] show ?case
    by simp
qed


lemma search_try_zero:
  assumes "status_of out = Some (JStr ''ZERO_RESULTS'')"
  shows "search_try out = Inr ZeroResults"
  using assms
  by (auto simp: status_of_def search_try_def then_do_def split: outcome.splits json.splits)

lemma continues_page_with_token: "continues (Body page_with_token)"
  by (simp add: continues_def page_with_token_def get_def)

lemma records_page_with_token: "page_records (Body page_with_token) = [JObj basic_cafe]"
  by (simp add: page_records_def page_with_token_def get_def)



text \<open>
  C8. The status ZERO_RESULTS ends the search with what has been accumulated, as a normal
  return: the body of the \<^verbatim>\<open>try\<close> ends with the \<^verbatim>\<open>break\<close> of ZERO_RESULTS, not with an
  exception (no API error is raised and no handler runs), and \<open>search_places\<close> returns,
  after \<open>k\<close> pages that keep the search going, the records of these pages; as the first
  response, the empty list.
\<close>

theorem search_places_zero_results:
  assumes "\<forall>j<k. continues (net w (length (requests (log w)) + j))"
    and "status_of (net w (length (requests (log w)) + k)) = Some (JStr ''ZERO_RESULTS'')"
  shows "search_try (net w (length (requests (log w)) + k)) = Inr ZeroResults
     \<and> (\<exists>w'. search_places self place_type location radius w = Some (accumulated w k, w')
           \<and> (k = 0 \<longrightarrow> accumulated w k = [])
           \<and> length (requests (log w')) = length (requests (log w)) + k + 1)"
proof -
  from search_try_zero [OF assms(2)]
  have zero: "search_try (net w (length (requests (log w)) + k)) = Inr ZeroResults" .
  then have "(\<exists>e. search_try (net w (length (requests (log w)) + k)) = Inl e)
           \<or> search_try (net w (length (requests (log w)) + k)) = Inr ZeroResults"
    by blast
  from search_loop_pages [OF assms(1) this, of self place_type location radius "[]" JNull] zero
  show ?thesis
    by (auto simp: search_places_def accumulated_def)
qed

theorem search_places_zero_results_witness:
  "status_of (net empty_world 0) = Some (JStr ''ZERO_RESULTS'')
   \<and> search_try (net empty_world 0) = Inr ZeroResults
   \<and> map_option fst (search_places (init ''key'') ''cafe'' ''Paris'' 50000 empty_world) = Some []
   \<and> continues (net zero_world 0)
   \<and> status_of (net zero_world 1) = Some (JStr ''ZERO_RESULTS'')
   \<and> search_try (net zero_world 1) = Inr ZeroResults
   \<and> map_option fst (search_places (init ''key'') ''cafe'' ''Paris'' 50000 zero_world)
       = Some [JObj basic_cafe]"
proof -
  have s0: "status_of (net empty_world 0) = Some (JStr ''ZERO_RESULTS'')"
    by (simp add: empty_world_def status_of_def status_page_def)
  have c: "continues (net zero_world 0)"
    by (simp add: zero_world_def continues_page_with_token)
  have s1: "status_of (net zero_world 1) = Some (JStr ''ZERO_RESULTS'')"
    by (simp add: zero_world_def status_of_def status_page_def)
  have "\<forall>j<0. continues (net empty_world (length (requests (log empty_world)) + j))"
    by simp
  moreover have "status_of (net empty_world (length (requests (log empty_world)) + 0))
                   = Some (JStr ''ZERO_RESULTS'')"
    using s0 by (simp add: empty_world_def)
  ultimately have "search_try (net empty_world (length (requests (log empty_world)) + 0))
                     = Inr ZeroResults
     \<and> (\<exists>w'. search_places (init ''key'') ''cafe'' ''Paris'' 50000 empty_world
                     = Some (accumulated empty_world 0, w')
           \<and> (0 = (0::nat) \<longrightarrow> accumulated empty_world 0 = [])
           \<and> length (requests (log w')) = length (requests (log empty_world)) + 0 + 1)"
    by (rule search_places_zero_results)
  then have t0: "search_try (net empty_world 0) = Inr ZeroResults"
    and 1: "map_option fst (search_places (init ''key'') ''cafe'' ''Paris'' 50000
                  empty_world) = Some []"
    by (auto simp: empty_world_def)
  have "\<forall>j<1. continues (net zero_world (length (requests (log zero_world)) + j))"
    using c by (simp add: zero_world_def)
  moreover have "status_of (net zero_world (length (requests (log zero_world)) + 1))
                   = Some (JStr ''ZERO_RESULTS'')"
    using s1 by (simp add: zero_world_def)
  ultimately have "search_try (net zero_world (length (requests (log zero_world)) + 1))
                     = Inr ZeroResults
     \<and> (\<exists>w'. search_places (init ''key'') ''cafe'' ''Paris'' 50000 zero_world
                     = Some (accumulated zero_world 1, w')
           \<and> (1 = (0::nat) \<longrightarrow> accumulated zero_world 1 = [])
           \<and> length (requests (log w')) = length (requests (log zero_world)) + 1 + 1)"
    by (rule search_places_zero_results)
  moreover have "accumulated zero_world 1 = [JObj basic_cafe]"
    by (simp add: accumulated_def zero_world_def records_page_with_token)
  ultimately have t1: "search_try (net zero_world 1) = Inr ZeroResults"
    and 2: "map_option fst (search_places (init ''key'') ''cafe'' ''Paris'' 50000
                        zero_world) = Some [JObj basic_cafe]"
    by (auto simp: zero_world_def)
  from s0 t0 1 c s1 t1 2 show ?thesis by (intro conjI)
qed

lemma search_loop_requests:
  assumes "search_loop self pt loc r places tok w = Some y"
  shows "net (snd y) = net w
         \<and> (\<exists>qs. requests (log (snd y)) = requests (log w) @ qs \<and> qs \<noteq> []
                \<and> (\<forall>q \<in> set qs. map_of (params q) ''radius'' = Some (JInt r)))"
proof (rule search_loop.raw_induct
    [where P = "\<lambda>self pt loc r places tok w y. net (snd y) = net w
         \<and> (\<exists>qs. requests (log (snd y)) = requests (log w) @ qs \<and> qs \<noteq> []
                \<and> (\<forall>q \<in> set qs. map_of (params q) ''radius'' = Some (JInt r)))", OF _ assms])
  fix f self pt loc r places tok w y
  assume IH: "\<And>self pt loc r places tok w y. f self pt loc r places tok w = Some y \<Longrightarrow>
      net (snd y) = net w
         \<and> (\<exists>qs. requests (log (snd y)) = requests (log w) @ qs \<and> qs \<noteq> []
                \<and> (\<forall>q \<in> set qs. map_of (params q) ''radius'' = Some (JInt r)))"
    and body: "(case search_request self pt loc r tok w of
        (out, w') \<Rightarrow>
          (case search_try out of
             Inl e \<Rightarrow> Some (places, w')
           | Inr ZeroResults \<Rightarrow> Some (places, w')
           | Inr (Results results token) \<Rightarrow>
               if \<not> truthy token then Some (places @ results, w')
               else f self pt loc r (places @ results) token w')) = Some y"
  from search_request_props [of self pt loc r tok w] obtain w1 q
    where sr: "search_request self pt loc r tok w = (net w (length (requests (log w))), w1)"
      and w1: "net w1 = net w" "requests (log w1) = requests (log w) @ [q]"
      and q: "map_of (params q) ''radius'' = Some (JInt r)"
    by blast
  have here: "net w1 = net w
         \<and> (\<exists>qs. requests (log w1) = requests (log w) @ qs \<and> qs \<noteq> []
                \<and> (\<forall>q \<in> set qs. map_of (params q) ''radius'' = Some (JInt r)))"
    using w1 q by simp
  show "net (snd y) = net w
         \<and> (\<exists>qs. requests (log (snd y)) = requests (log w) @ qs \<and> qs \<noteq> []
                \<and> (\<forall>q \<in> set qs. map_of (params q) ''radius'' = Some (JInt r)))"
  proof (cases "search_try (net w (length (requests (log w))))")
    case (Inl e)
    with body sr have "y = (places, w1)" by simp
    with here show ?thesis by simp
  next
    case (Inr pg)
    show ?thesis
    proof (cases pg)
      case ZeroResults
      with body sr Inr have "y = (places, w1)" by simp
      with here show ?thesis by simp
    next
      case (Results results token)
      show ?thesis
      proof (cases "truthy token")
        case False
        with body sr Inr Results have "y = (places @ results, w1)" by simp
        with here show ?thesis by simp
      next
        case True
        with body sr Inr Results have "f self pt loc r (places @ results) token w1 = Some y"
          by simp
        from IH [OF this] obtain qs
          where "net (snd y) = net w1" "requests (log (snd y)) = requests (log w1) @ qs"
            "\<forall>q \<in> set qs. map_of (params q) ''radius'' = Some (JInt r)"
          by blast
        with w1 q show ?thesis
          by (intro conjI exI [of _ "q # qs"]) simp_all
      qed
    qed
  qed
qed

lemma search_places_empty_world:
  "search_places (init ''key'') ''cafe'' ''Paris'' 60000 empty_world =
     Some ([], empty_world\<lparr>log :=
        [Get \<lparr>url = ''https://maps.googleapis.com/maps/api/place/textsearch/json'',
              params = [(''key'', JStr ''key''), (''query'', JStr ''cafe in Paris''),
                        (''radius'', JInt 60000)]\<rparr>]\<rparr>)"
  by (simp add: search_places_def search_loop.simps search_request_def session_get_def
        empty_world_def init_def GOOGLE_PLACES_BASE_URL_def search_try_def then_do_def
        status_page_def)

text \<open>
  C4, as the specification has it, fails: nothing clamps the radius. With the radius
  60000 the request carries 60000, above the provider's maximum of 50000.
\<close>

theorem search_places_radius_counterexample:
  "map_option (radii \<circ> snd) (search_places (init ''key'') ''cafe'' ''Paris'' 60000 empty_world)
     = Some [Some (JInt 60000)]
   \<and> \<not> (60000 \<le> DEFAULT_RADIUS)"
  by (simp add: search_places_empty_world radii_def DEFAULT_RADIUS_def)

text \<open>
  C4, amended. The radius sent is the radius argument, unchanged: in the request of every
  round of the loop, whatever the page token and the world, and so in every request that
  a run of \<open>search_places\<close> has made when it returns (there is at least one). It is at
  most 50000 exactly when the argument is.
\<close>

theorem search_places_radius_sent:
  "(\<exists>w' q. search_request self place_type location radius token w
             = (net w (length (requests (log w))), w')
        \<and> requests (log w') = requests (log w) @ [q]
        \<and> map_of (params q) ''radius'' = Some (JInt radius))
   \<and> (search_places self place_type location radius w = Some (places, w') \<longrightarrow>
        (\<exists>qs. requests (log w') = requests (log w) @ qs \<and> qs \<noteq> []
             \<and> (\<forall>q \<in> set qs. map_of (params q) ''radius'' = Some (JInt radius))))"
proof (intro conjI impI)
  show "\<exists>w' q. search_request self place_type location radius token w
             = (net w (length (requests (log w))), w')
        \<and> requests (log w') = requests (log w) @ [q]
        \<and> map_of (params q) ''radius'' = Some (JInt radius)"
    using search_request_props [of self place_type location radius token w] by blast
next
  assume "search_places self place_type location radius w = Some (places, w')"
  then show "\<exists>qs. requests (log w') = requests (log w) @ qs \<and> qs \<noteq> []
             \<and> (\<forall>q \<in> set qs. map_of (params q) ''radius'' = Some (JInt radius))"
    using search_loop_requests [of self place_type location radius "[]" JNull w "(places, w')"]
    by (simp add: search_places_def)
qed

theorem search_places_radius_sent_witness:
  "search_places (init ''key'') ''cafe'' ''Paris'' 60000 empty_world =
     Some ([], empty_world\<lparr>log :=
        [Get \<lparr>url = ''https://maps.googleapis.com/maps/api/place/textsearch/json'',
              params = [(''key'', JStr ''key''), (''query'', JStr ''cafe in Paris''),
                        (''radius'', JInt 60000)]\<rparr>]\<rparr>)
   \<and> list_all (\<lambda>q. map_of (params q) ''radius'' = Some (JInt 60000))
        (requests (log (empty_world\<lparr>log :=
        [Get \<lparr>url = ''https://maps.googleapis.com/maps/api/place/textsearch/json'',
              params = [(''key'', JStr ''key''), (''query'', JStr ''cafe in Paris''),
                        (''radius'', JInt 60000)]\<rparr>]\<rparr>)))"
proof -
  let ?w = "empty_world\<lparr>log :=
        [Get \<lparr>url = ''https://maps.googleapis.com/maps/api/place/textsearch/json'',
              params = [(''key'', JStr ''key''), (''query'', JStr ''cafe in Paris''),
                        (''radius'', JInt 60000)]\<rparr>]\<rparr>"
  from search_places_radius_sent [of "init ''key''" "''cafe''" "''Paris''" 60000 JNull
      empty_world "[]" ?w]
  have "search_places (init ''key'') ''cafe'' ''Paris'' 60000 empty_world = Some ([], ?w) \<longrightarrow>
        (\<exists>qs. requests (log ?w) = requests (log empty_world) @ qs \<and> qs \<noteq> []
             \<and> (\<forall>q \<in> set qs. map_of (params q) ''radius'' = Some (JInt 60000)))"
    by (elim conjE)
  with search_places_empty_world
  obtain qs where "requests (log ?w) = requests (log empty_world) @ qs"
    and "\<forall>q \<in> set qs. map_of (params q) ''radius'' = Some (JInt 60000)"
    by blast
  then have "list_all (\<lambda>q. map_of (params q) ''radius'' = Some (JInt 60000)) (requests (log ?w))"
    by (simp add: empty_world_def list_all_iff)
  with search_places_empty_world show ?thesis by (intro conjI)
qed

subsection \<open>The pipeline\<close>

lemma basic_resultE:
  assumes "basic_result p"
  obtains pb v where "p = JObj pb" "map_of pb ''place_id'' = Some v"
  using assms by (cases p) (auto simp: basic_result_def)

lemma extract_total:
  assumes "basic_result (JObj pb)" and "detail_or_absent d"
  shows "\<exists>r. extract_place_data (JObj pb) d = Inr r
           \<and> map_of r ''place_id'' = map_of pb ''place_id''
           \<and> (\<not> truthy d \<longrightarrow> r = basic_record pb)"
proof (cases "truthy d")
  case False
  from assms(1) obtain v where "map_of pb ''place_id'' = Some v"
    by (auto elim: basic_resultE)
  with extract_basic [OF assms(1) False] False show ?thesis
    by (simp add: basic_record_def get_def)
next
  case True
  with assms(2) have dr: "detail_result d"
    by (simp add: detail_or_absent_def)
  then obtain pd where d: "d = JObj pd"
    by (cases d) (simp_all add: detail_result_def)
  with True have ne: "pd \<noteq> []" by simp
  from dr d obtain phone
    where "format_phone_number (get pd ''formatted_phone_number'' (JStr '''')) = Inr phone"
    using phone_ok by blast
  from assms(1) obtain v where "map_of pb ''place_id'' = Some v"
    by (auto elim: basic_resultE)
  with extract_detail [OF assms(1) dr [unfolded d] ne \<open>format_phone_number _ = _\<close>] True d
  show ?thesis
    by (simp add: get_def)
qed

lemma fetch_details_step_eq:
  assumes "basic_result place"
  shows "\<exists>w'. fetch_details_step self fd place w = (Inr (detail_for fd w 0), w')
           \<and> net w' = net w
           \<and> length (requests (log w')) = length (requests (log w)) + (if fd then 1 else 0)"
proof -
  from assms obtain pb v where "place = JObj pb" "map_of pb ''place_id'' = Some v"
    by (rule basic_resultE)
  then show ?thesis
    by (simp add: fetch_details_step_def get_place_details_eq detail_for_def sleep_def)
qed

lemma detail_for_shift:
  assumes "net w' = net w"
    and "length (requests (log w')) = length (requests (log w)) + (if fd then 1 else 0)"
  shows "detail_for fd w' i = detail_for fd w (Suc i)"
  using assms by (simp add: detail_for_def)

lemma scrape_loop_records:
  assumes "\<forall>p \<in> set places. basic_result p"
    and "\<forall>i<length places. detail_or_absent (detail_for fd w i)"
  shows "\<exists>rs w'. scrape_loop self fd places results w = (Inr (results @ rs), w')
           \<and> length rs = length places
           \<and> (\<forall>i<length places. \<exists>pb. places ! i = JObj pb
                  \<and> extract_place_data (places ! i) (detail_for fd w i) = Inr (rs ! i)
                  \<and> map_of (rs ! i) ''place_id'' = map_of pb ''place_id''
                  \<and> (\<not> truthy (detail_for fd w i) \<longrightarrow> rs ! i = basic_record pb))"
  using assms
proof (induction places arbitrary: results w)
  case Nil
  then show ?case by simp
next
  case (Cons place rest)
  from Cons.prems(1) have bp: "basic_result place" by simp
  then obtain pb where pb: "place = JObj pb"
    by (auto elim: basic_resultE)
  from fetch_details_step_eq [OF bp, of self fd w] obtain w1
    where step: "fetch_details_step self fd place w = (Inr (detail_for fd w 0), w1)"
      and w1: "net w1 = net w"
        "length (requests (log w1)) = length (requests (log w)) + (if fd then 1 else 0)"
    by blast
  from Cons.prems(2) have d0: "detail_or_absent (detail_for fd w 0)" by auto
  from extract_total [OF bp [unfolded pb] d0] obtain r
    where r: "extract_place_data (JObj pb) (detail_for fd w 0) = Inr r"
      and rid: "map_of r ''place_id'' = map_of pb ''place_id''"
      and rbasic: "\<not> truthy (detail_for fd w 0) \<longrightarrow> r = basic_record pb"
    by blast
  have shift: "detail_for fd w1 i = detail_for fd w (Suc i)" for i
    using w1 by (rule detail_for_shift)
  have rest_basic: "\<forall>p \<in> set rest. basic_result p"
    using Cons.prems(1) by simp
  have rest_detail: "\<forall>i<length rest. detail_or_absent (detail_for fd w1 i)"
    using Cons.prems(2) shift by auto
  from Cons.IH [OF rest_basic rest_detail, of "results @ [r]"] obtain rs w'
    where loop: "scrape_loop self fd rest (results @ [r]) w1 = (Inr ((results @ [r]) @ rs), w')"
      and len: "length rs = length rest"
      and each: "\<forall>i<length rest. \<exists>pb. rest ! i = JObj pb
                  \<and> extract_place_data (rest ! i) (detail_for fd w1 i) = Inr (rs ! i)
                  \<and> map_of (rs ! i) ''place_id'' = map_of pb ''place_id''
                  \<and> (\<not> truthy (detail_for fd w1 i) \<longrightarrow> rs ! i = basic_record pb)"
    by blast
  have run: "scrape_loop self fd (place # rest) results w = (Inr (results @ (r # rs)), w')"
    using pb step r loop by simp
  have all: "\<forall>i<length (place # rest). \<exists>pb. (place # rest) ! i = JObj pb
                  \<and> extract_place_data ((place # rest) ! i) (detail_for fd w i) = Inr ((r # rs) ! i)
                  \<and> map_of ((r # rs) ! i) ''place_id'' = map_of pb ''place_id''
                  \<and> (\<not> truthy (detail_for fd w i) \<longrightarrow> (r # rs) ! i = basic_record pb)"
  proof (intro allI impI)
    fix i assume i: "i < length (place # rest)"
    show "\<exists>pb. (place # rest) ! i = JObj pb
                  \<and> extract_place_data ((place # rest) ! i) (detail_for fd w i) = Inr ((r # rs) ! i)
                  \<and> map_of ((r # rs) ! i) ''place_id'' = map_of pb ''place_id''
                  \<and> (\<not> truthy (detail_for fd w i) \<longrightarrow> (r # rs) ! i = basic_record pb)"
    proof (cases i)
      case 0
      with pb r rid rbasic show ?thesis by simp
    next
      case (Suc j)
      with i have "j < length rest" by simp
      with each shift Suc show ?thesis by simp
    qed
  qed
  from run len all show ?case
    by (intro exI [of _ "r # rs"] exI [of _ w']) simp
qed

lemma search_places_detail_world:
  "search_places (init ''key'') ''cafe'' ''Paris'' 50000 detail_world =
     Some ([JObj basic_cafe, JObj basic_bar], detail_world\<lparr>log :=
        [Get \<lparr>url = ''https://maps.googleapis.com/maps/api/place/textsearch/json'',
              params = [(''key'', JStr ''key''), (''query'', JStr ''cafe in Paris''),
                        (''radius'', JInt 50000)]\<rparr>]\<rparr>)"
  by (simp add: search_places_def search_loop.simps search_request_def session_get_def
        detail_world_def init_def GOOGLE_PLACES_BASE_URL_def search_try_def then_do_def
        last_page_def get_def)

lemma basic_bar_ok: "basic_result (JObj basic_bar)"
  by (simp add: basic_bar_def basic_result_def is_dict_def get_def location_of_def)

text \<open>
  C1. When the search returns \<open>N\<close> BasicResults and every detail lookup gives a
  DetailResult or nothing, \<open>scrape_places\<close> returns \<open>N\<close> records, with or without detail
  fetching: the \<open>i\<close>-th record is \<open>extract_place_data\<close> of the \<open>i\<close>-th BasicResult and
  of the detail found for it, it has the identifier of that BasicResult, and when the
  lookup failed or was not made it is the record of the basic fields alone.
\<close>

theorem scrape_places_preserves_sequence:
  assumes "search_places self place_type location radius w = Some (places, w1)"
    and "\<forall>p \<in> set places. basic_result p"
    and "\<forall>i<length places. detail_or_absent (detail_for fetch_details w1 i)"
  shows "\<exists>results w2.
           scrape_places self place_type location fetch_details radius w = Some (Inr results, w2)
           \<and> length results = length places
           \<and> (\<forall>i<length places. \<exists>pb. places ! i = JObj pb
                  \<and> extract_place_data (places ! i) (detail_for fetch_details w1 i)
                      = Inr (results ! i)
                  \<and> map_of (results ! i) ''place_id'' = map_of pb ''place_id''
                  \<and> (\<not> truthy (detail_for fetch_details w1 i) \<longrightarrow>
                       results ! i = basic_record pb))"
proof (cases "places = []")
  case True
  with assms(1) show ?thesis
    by (simp add: scrape_places_def)
next
  case False
  from scrape_loop_records [OF assms(2,3), of self "[]"] obtain rs w2
    where "scrape_loop self fetch_details places [] w1 = (Inr rs, w2)"
      and "length rs = length places"
      and "\<forall>i<length places. \<exists>pb. places ! i = JObj pb
                  \<and> extract_place_data (places ! i) (detail_for fetch_details w1 i) = Inr (rs ! i)
                  \<and> map_of (rs ! i) ''place_id'' = map_of pb ''place_id''
                  \<and> (\<not> truthy (detail_for fetch_details w1 i) \<longrightarrow> rs ! i = basic_record pb)"
    by auto
  with assms(1) False show ?thesis
    by (intro exI [of _ rs] exI [of _ w2]) (simp add: scrape_places_def)
qed

theorem scrape_places_preserves_sequence_witness:
  "basic_result (JObj basic_cafe) \<and> basic_result (JObj basic_bar)
   \<and> map_option fst (search_places (init ''key'') ''cafe'' ''Paris'' 50000 detail_world)
       = Some [JObj basic_cafe, JObj basic_bar]
   \<and> map_option fst (scrape_places (init ''key'') ''cafe'' ''Paris'' True 50000 detail_world)
       = Some (Inr
          [[(''name'', JStr ''''), (''place_id'', JStr ''p1''), (''address'', JStr ''1 Main St''),
            (''latitude'', JInt 3), (''longitude'', JInt 2), (''rating'', JFloat 4),
            (''user_ratings_total'', JInt 10), (''phone_number'', JStr ''5551234567''),
            (''website'', JStr '''')],
           [(''name'', JStr ''Bar''), (''place_id'', JStr ''p2''), (''address'', JStr ''''),
            (''latitude'', JStr ''''), (''longitude'', JStr ''''), (''rating'', JStr ''''),
            (''user_ratings_total'', JStr ''''), (''phone_number'', JStr ''''),
            (''website'', JStr '''')]])"
proof -
  let ?w1 = "detail_world\<lparr>log :=
        [Get \<lparr>url = ''https://maps.googleapis.com/maps/api/place/textsearch/json'',
              params = [(''key'', JStr ''key''), (''query'', JStr ''cafe in Paris''),
                        (''radius'', JInt 50000)]\<rparr>]\<rparr>"
  let ?places = "[JObj basic_cafe, JObj basic_bar]"
  have d0: "detail_for True ?w1 0 = JObj detail_cafe"
    by (simp add: detail_for_def detail_world_def detail_of_def get_def)
  have d1: "detail_for True ?w1 1 = JNull"
    by (simp add: detail_for_def detail_world_def detail_of_def)
  have basics: "\<forall>p \<in> set ?places. basic_result p"
    using basic_cafe_ok basic_bar_ok by simp
  have details: "\<forall>i<length ?places. detail_or_absent (detail_for True ?w1 i)"
  proof (intro allI impI)
    fix i assume "i < length ?places"
    then have "i = 0 \<or> i = 1" by auto
    with d0 d1 detail_cafe_ok show "detail_or_absent (detail_for True ?w1 i)"
      by (auto simp: detail_or_absent_def)
  qed
  from scrape_places_preserves_sequence [OF search_places_detail_world basics details]
  obtain results w2
    where run: "scrape_places (init ''key'') ''cafe'' ''Paris'' True 50000 detail_world
                  = Some (Inr results, w2)"
      and len: "length results = length ?places"
      and each: "\<forall>i<length ?places. \<exists>pb. ?places ! i = JObj pb
                  \<and> extract_place_data (?places ! i) (detail_for True ?w1 i) = Inr (results ! i)
                  \<and> map_of (results ! i) ''place_id'' = map_of pb ''place_id''
                  \<and> (\<not> truthy (detail_for True ?w1 i) \<longrightarrow> results ! i = basic_record pb)"
    by (elim exE conjE) (rule that; assumption)
  from len obtain a b where ab: "results = [a, b]"
    by (cases results; cases "tl results"; cases "tl (tl results)") auto
  from each have "extract_place_data (?places ! 0) (detail_for True ?w1 0) = Inr (results ! 0)"
    by fastforce
  with ab d0 have a: "extract_place_data (JObj basic_cafe) (JObj detail_cafe) = Inr a"
    by simp
  from each have "extract_place_data (?places ! 1) (detail_for True ?w1 1) = Inr (results ! 1)"
    by fastforce
  with ab d1 have b: "extract_place_data (JObj basic_bar) JNull = Inr b"
    by simp
  have a': "extract_place_data (JObj basic_cafe) (JObj detail_cafe) = Inr
          [(''name'', JStr ''''), (''place_id'', JStr ''p1''), (''address'', JStr ''1 Main St''),
            (''latitude'', JInt 3), (''longitude'', JInt 2), (''rating'', JFloat 4),
            (''user_ratings_total'', JInt 10), (''phone_number'', JStr ''5551234567''),
            (''website'', JStr '''')]"
    by (simp add: extract_place_data_def then_do_def basic_cafe_def detail_cafe_def get_def
          update_def item_def format_phone_number_def replace_def startswith_def)
  have b': "extract_place_data (JObj basic_bar) JNull = Inr
           [(''name'', JStr ''Bar''), (''place_id'', JStr ''p2''), (''address'', JStr ''''),
            (''latitude'', JStr ''''), (''longitude'', JStr ''''), (''rating'', JStr ''''),
            (''user_ratings_total'', JStr ''''), (''phone_number'', JStr ''''),
            (''website'', JStr '''')]"
    by (simp add: extract_place_data_def then_do_def basic_bar_def get_def)
  from a a' b b' ab run
  have "map_option fst (scrape_places (init ''key'') ''cafe'' ''Paris'' True 50000 detail_world)
       = Some (Inr
          [[(''name'', JStr ''''), (''place_id'', JStr ''p1''), (''address'', JStr ''1 Main St''),
            (''latitude'', JInt 3), (''longitude'', JInt 2), (''rating'', JFloat 4),
            (''user_ratings_total'', JInt 10), (''phone_number'', JStr ''5551234567''),
            (''website'', JStr '''')],
           [(''name'', JStr ''Bar''), (''place_id'', JStr ''p2''), (''address'', JStr ''''),
            (''latitude'', JStr ''''), (''longitude'', JStr ''''), (''rating'', JStr ''''),
            (''user_ratings_total'', JStr ''''), (''phone_number'', JStr ''''),
            (''website'', JStr '''')]])"
    by simp
  with basic_cafe_ok basic_bar_ok search_places_detail_world show ?thesis
    by simp
qed

subsection \<open>Export\<close>

lemma export_both:
  assumes "data \<noteq> []"
  shows "export_loop ucd data place_type location [''json'', ''csv''] [] s =
     ([(''json'', \<not> write_fails s (length (opened s))
                     (fst (generate_filename ucd place_type location (literal ''json'') s))),
       (''csv'', \<not> write_fails s (Suc (length (opened s)))
                     (fst (generate_filename ucd place_type location (literal ''csv'')
                            (s\<lparr>reads := Suc (reads s)\<rparr>)))
                 \<and> \<not> isl (dictwriter data))],
      s\<lparr>reads := Suc (Suc (reads s)),
        opened := opened s @
          [fst (generate_filename ucd place_type location (literal ''json'') s),
           fst (generate_filename ucd place_type location (literal ''csv'')
                  (s\<lparr>reads := Suc (reads s)\<rparr>))]\<rparr>)"
  using assms
  by (cases "dictwriter data")
     (simp_all add: generate_filename_def save_to_json_def save_to_csv_def open_and_write_def
        Let_def)

lemma dictwriter_cafe: "\<not> isl (dictwriter [JObj basic_cafe])"
  by (simp add: dictwriter_def dict_to_list_def then_do_def basic_cafe_def)

lemma names_cafe:
  "fst (generate_filename latin1 (literal ''cafe'') (literal ''Paris'') (literal ''json'') csv_denied)
     = literal ''cafe_paris_1700000000.json''"
  "fst (generate_filename latin1 (literal ''cafe'') (literal ''Paris'') (literal ''csv'')
          (csv_denied\<lparr>reads := Suc (reads csv_denied)\<rparr>))
     = literal ''cafe_paris_1700000001.csv''"
proof -
  have "sanitize_filename latin1 (literal ''cafe'') = literal ''cafe''"
    and "sanitize_filename latin1 (literal ''Paris'') = literal ''paris''"
    by (simp_all add: sanitize_filename_eq latin1_def literal_def ord_def isalnum_latin1_def
          isupper_latin1_def lower_latin1_def)
  then show
    "fst (generate_filename latin1 (literal ''cafe'') (literal ''Paris'') (literal ''json'')
            csv_denied) = literal ''cafe_paris_1700000000.json''"
    "fst (generate_filename latin1 (literal ''cafe'') (literal ''Paris'') (literal ''csv'')
            (csv_denied\<lparr>reads := Suc (reads csv_denied)\<rparr>))
       = literal ''cafe_paris_1700000001.csv''"
    by (simp_all add: generate_filename_def csv_denied_def Let_def str_int_def str_nat.simps)
       (simp_all add: literal_def ord_def)
qed

text \<open>
  C9. With data that are not empty and the formats json and csv (given, or by default),
  \<open>export_data\<close> returns the dictionary with one entry for each of the two formats and
  opens both files, in this order, whatever happens to the first: the entry of json says
  whether its file could be written, the entry of csv whether its file could be written
  and the rows fit the header. Nothing is raised: the result is a value in every case.
\<close>

theorem export_data_per_format:
  assumes "data \<noteq> []" and "formats = None \<or> formats = Some [''json'', ''csv'']"
  shows "fst (export_data ucd data place_type location formats s) =
           [(''json'', \<not> write_fails s (length (opened s))
                     (fst (generate_filename ucd place_type location (literal ''json'') s))),
            (''csv'', \<not> write_fails s (Suc (length (opened s)))
                     (fst (generate_filename ucd place_type location (literal ''csv'')
                            (s\<lparr>reads := Suc (reads s)\<rparr>)))
                 \<and> \<not> isl (dictwriter data))]
     \<and> opened (snd (export_data ucd data place_type location formats s)) =
          opened s @
          [fst (generate_filename ucd place_type location (literal ''json'') s),
           fst (generate_filename ucd place_type location (literal ''csv'')
                  (s\<lparr>reads := Suc (reads s)\<rparr>))]"
  using assms(2) export_both [OF assms(1), of ucd place_type location s]
  by (auto simp: export_data_def)

theorem export_data_per_format_witness:
  "fst (export_data latin1 [JObj basic_cafe] (literal ''cafe'') (literal ''Paris'') None csv_denied)
     = [(''json'', True), (''csv'', False)]
   \<and> opened (snd (export_data latin1 [JObj basic_cafe] (literal ''cafe'') (literal ''Paris'') None
                    csv_denied))
     = [literal ''cafe_paris_1700000000.json'', literal ''cafe_paris_1700000001.csv'']"
proof -
  have "[JObj basic_cafe] \<noteq> []" by simp
  moreover have "None = None \<or> None = Some [''json'', ''csv'']" by simp
  ultimately have "fst (export_data latin1 [JObj basic_cafe] (literal ''cafe'') (literal ''Paris'')
                         None csv_denied) =
           [(''json'', \<not> write_fails csv_denied (length (opened csv_denied))
                     (fst (generate_filename latin1 (literal ''cafe'') (literal ''Paris'')
                            (literal ''json'') csv_denied))),
            (''csv'', \<not> write_fails csv_denied (Suc (length (opened csv_denied)))
                     (fst (generate_filename latin1 (literal ''cafe'') (literal ''Paris'')
                            (literal ''csv'') (csv_denied\<lparr>reads := Suc (reads csv_denied)\<rparr>)))
                 \<and> \<not> isl (dictwriter [JObj basic_cafe]))]
     \<and> opened (snd (export_data latin1 [JObj basic_cafe] (literal ''cafe'') (literal ''Paris'')
                      None csv_denied)) =
          opened csv_denied @
          [fst (generate_filename latin1 (literal ''cafe'') (literal ''Paris'')
                  (literal ''json'') csv_denied),
           fst (generate_filename latin1 (literal ''cafe'') (literal ''Paris'')
                  (literal ''csv'') (csv_denied\<lparr>reads := Suc (reads csv_denied)\<rparr>))]"
    by (rule export_data_per_format)
  then show ?thesis
    unfolding names_cafe by (simp add: csv_denied_def dictwriter_cafe literal_def ord_def)
qed

end
